theory Spec2Isabelle
  imports Complex_Main
begin

section \<open>Numbers, failures and property lookup\<close>

text \<open>
  The model follows \<^verbatim>\<open>constants.js\<close>, the utility module (\<^verbatim>\<open>getSeasonProgress\<close> ...
  \<^verbatim>\<open>calculateSalary\<close>) and the components \<^verbatim>\<open>PlayerDetails\<close> and
  \<^verbatim>\<open>SalaryProjections\<close> of \<^verbatim>\<open>components.jsx\<close>.

  A JavaScript number is modelled by a real number: arithmetic is exact, and neither the
  rounding of IEEE doubles nor overflow to \<^verbatim>\<open>Infinity\<close> is part of the model. The two
  ways in which an expression of the source fails to produce a real number are values of
  \<open>js_failure\<close>:
  \<^item> \<open>TypeError\<close>: the exception thrown by reading a property of \<^verbatim>\<open>undefined\<close>;
  \<^item> \<open>NotANumber\<close>: the expression yields \<^verbatim>\<open>undefined\<close> or \<^verbatim>\<open>NaN\<close> where a number is
    expected (every arithmetic operation on either yields \<^verbatim>\<open>NaN\<close> again).
  A function that can fail returns \<open>js_failure + 'a\<close>, with \<open>Inl\<close> for the failure.
\<close>

datatype js_failure = TypeError | NotANumber

text \<open>
  \<^verbatim>\<open>obj[key]\<close> on an object literal finds the literal's own properties first and then the
  properties every object inherits from \<^verbatim>\<open>Object.prototype\<close> (methods and accessors, all
  truthy). \<open>Object_prototype_names\<close> lists the inherited names of the ECMAScript standard
  and its Annex B.
\<close>

definition Object_prototype_names :: "string list" where
  "Object_prototype_names =
     [''constructor'', ''hasOwnProperty'', ''isPrototypeOf'', ''propertyIsEnumerable'',
      ''toLocaleString'', ''toString'', ''valueOf'', ''__proto__'',
      ''__defineGetter__'', ''__defineSetter__'', ''__lookupGetter__'', ''__lookupSetter__'']"

datatype 'a js_prop = Own 'a | Inherited | Absent

definition js_get :: "(string \<times> 'a) list \<Rightarrow> string \<Rightarrow> 'a js_prop" where
  "js_get obj key =
     (case map_of obj key of
        Some v \<Rightarrow> Own v
      | None \<Rightarrow> if key \<in> set Object_prototype_names then Inherited else Absent)"

text \<open>
  \<^verbatim>\<open>x.toFixed(1)\<close> picks the integer \<open>n\<close> with \<open>n / 10\<close> closest to \<open>x\<close>, the larger
  one on a tie, after taking the sign off a negative \<open>x\<close>. The decimal string it returns is
  represented by the number it denotes, which is what \<^verbatim>\<open>parseFloat\<close> reads back.
\<close>

definition toFixed1 :: "real \<Rightarrow> real" where
  "toFixed1 x =
     (if x < 0 then - (real_of_int \<lfloor>(- x) * 10 + 1 / 2\<rfloor> / 10)
      else real_of_int \<lfloor>x * 10 + 1 / 2\<rfloor> / 10)"

text \<open>
  JavaScript truthiness of a value that is a number or missing (\<^verbatim>\<open>undefined\<close>,
  \<^verbatim>\<open>null\<close>): only a number other than 0 is truthy.
\<close>

definition truthy :: "real option \<Rightarrow> bool" where
  "truthy v = (case v of None \<Rightarrow> False | Some x \<Rightarrow> x \<noteq> 0)"

section \<open>Constants (\<^verbatim>\<open>constants.js\<close>)\<close>

text \<open>
  A \<^verbatim>\<open>Date\<close> is represented by its \<^verbatim>\<open>getTime()\<close>, the milliseconds since the epoch;
  \<^verbatim>\<open>new Date('2025-10-22')\<close> is midnight UTC of that day. The season configuration is a
  parameter of the functions that read it, and \<open>SEASON_CONFIG\<close> is the configured value.
\<close>

record season_config =
  currentSeason :: string
  seasonStartDate :: int
  seasonEndDate :: int
  currentSeasonYear :: int
  dataAsOfDate :: int

definition SEASON_CONFIG :: season_config where
  "SEASON_CONFIG =
     \<lparr> currentSeason = ''2025-26'',
       seasonStartDate = 1761091200000,
       seasonEndDate = 1776038400000,
       currentSeasonYear = 2025,
       dataAsOfDate = 1769558400000 \<rparr>"

definition INFLATION_SCALERS :: "(string \<times> real) list" where
  "INFLATION_SCALERS =
     [(''2026-27'', 1.074), (''2027-28'', 1.127), (''2028-29'', 1.184),
      (''2029-30'', 1.240), (''2030-31'', 1.305)]"

datatype category = guard | wing | big

definition POSITION_CATEGORIES :: "(string \<times> category) list" where
  "POSITION_CATEGORIES =
     [(''pg_pos'', guard), (''sg_pos'', guard), (''sf_pos'', wing),
      (''pf_pos'', big), (''c_pos'', big)]"

fun AGING_CURVES :: "category \<Rightarrow> (int \<times> real) list" where
  "AGING_CURVES guard =
     [(20, 0.60), (21, 0.50), (22, 0.40), (23, 0.30), (24, 0.15),
      (25, 0.08), (26, 0.03), (27, 0.00), (28, 0.00), (29, -0.08),
      (30, -0.15), (31, -0.25), (32, -0.40), (33, -0.55), (34, -0.75),
      (35, -1.00), (36, -1.30)]"
| "AGING_CURVES wing =
     [(20, 0.65), (21, 0.55), (22, 0.45), (23, 0.35), (24, 0.20),
      (25, 0.10), (26, 0.03), (27, 0.00), (28, 0.00), (29, -0.05),
      (30, -0.10), (31, -0.18), (32, -0.28), (33, -0.42), (34, -0.58),
      (35, -0.80), (36, -1.05)]"
| "AGING_CURVES big =
     [(20, 0.75), (21, 0.60), (22, 0.50), (23, 0.35), (24, 0.18),
      (25, 0.05), (26, 0.00), (27, -0.03), (28, -0.08), (29, -0.15),
      (30, -0.25), (31, -0.38), (32, -0.52), (33, -0.70), (34, -0.90),
      (35, -1.15), (36, -1.45)]"

definition DEFAULT_POSITION_CATEGORY :: category where
  "DEFAULT_POSITION_CATEGORY = wing"

definition REPLACEMENT_LEVEL_DARKO :: real where
  "REPLACEMENT_LEVEL_DARKO = -3.0"

definition MINUTES_BASELINE :: real where
  "MINUTES_BASELINE = 1475"

definition WIN_COST_MILLIONS :: real where
  "WIN_COST_MILLIONS = 4.32"

definition MVP_BONUS_CAP :: real where
  "MVP_BONUS_CAP = 0.10"

definition MVP_BONUS_EXPONENT :: real where
  "MVP_BONUS_EXPONENT = 1.2"

definition MVP_BONUS_DIVISOR :: real where
  "MVP_BONUS_DIVISOR = 4"

definition MINIMUM_SALARY_THRESHOLD :: real where
  "MINIMUM_SALARY_THRESHOLD = 3.0"

definition FUTURE_YEARS :: "string list" where
  "FUTURE_YEARS = [''2026-27'', ''2027-28'', ''2028-29'', ''2029-30'', ''2030-31'']"

section \<open>Season progress\<close>

text \<open>
  \<^verbatim>\<open>getSeasonProgress(asOfDate = SEASON_CONFIG.dataAsOfDate)\<close>: the argument is optional,
  \<open>None\<close> takes the default. With a season of duration 0 the quotient of the source is
  \<^verbatim>\<open>Infinity\<close>, \<^verbatim>\<open>-Infinity\<close> or \<^verbatim>\<open>NaN\<close>, which \<^verbatim>\<open>Math.max(0, Math.min(1, _))\<close> turns
  into 1, 0 and \<^verbatim>\<open>NaN\<close>.
\<close>

definition getSeasonProgress :: "season_config \<Rightarrow> int option \<Rightarrow> js_failure + real" where
  "getSeasonProgress cfg asOfDate =
     (let asOf = (case asOfDate of None \<Rightarrow> dataAsOfDate cfg | Some t \<Rightarrow> t);
          seasonDuration = seasonEndDate cfg - seasonStartDate cfg;
          elapsed = asOf - seasonStartDate cfg
      in if seasonDuration = 0
         then (if elapsed = 0 then Inl NotANumber else if 0 < elapsed then Inr 1 else Inr 0)
         else Inr (max 0 (min 1 (real_of_int elapsed / real_of_int seasonDuration))))"

section \<open>Aging curves\<close>

text \<open>
  \<^verbatim>\<open>POSITION_CATEGORIES[position] || DEFAULT_POSITION_CATEGORY\<close>: an own property gives its
  category, a name that is not a property gives the default, and an inherited name gives a
  truthy value that is no category (\<open>None\<close> here), so that \<^verbatim>\<open>AGING_CURVES[category]\<close> is
  \<^verbatim>\<open>undefined\<close>.
\<close>

definition positionCategory :: "string \<Rightarrow> category option" where
  "positionCategory position =
     (case js_get POSITION_CATEGORIES position of
        Own c \<Rightarrow> Some c
      | Inherited \<Rightarrow> None
      | Absent \<Rightarrow> Some DEFAULT_POSITION_CATEGORY)"

text \<open>The rest of \<^verbatim>\<open>getAgingDelta\<close> once the category is known: clamp and look up.\<close>

definition curveDelta :: "category \<Rightarrow> real \<Rightarrow> js_failure + real" where
  "curveDelta c age =
     (let curve = AGING_CURVES c;
          ageKey = max 20 (min 36 \<lfloor>age\<rfloor>)
      in case map_of curve ageKey of None \<Rightarrow> Inl NotANumber | Some d \<Rightarrow> Inr d)"

definition getAgingDelta :: "real \<Rightarrow> string \<Rightarrow> js_failure + real" where
  "getAgingDelta age position =
     (case positionCategory position of
        None \<Rightarrow> Inl TypeError
      | Some c \<Rightarrow> curveDelta c age)"

definition getPartialYearAgingDelta ::
  "season_config \<Rightarrow> real \<Rightarrow> string \<Rightarrow> int option \<Rightarrow> js_failure + real" where
  "getPartialYearAgingDelta cfg age position asOfDate =
     (case getAgingDelta age position of
        Inl e \<Rightarrow> Inl e
      | Inr fullYearDelta \<Rightarrow>
          (case getSeasonProgress cfg asOfDate of
             Inl e \<Rightarrow> Inl e
           | Inr seasonProgress \<Rightarrow> Inr (fullYearDelta * seasonProgress)))"

text \<open>
  The loop of \<^verbatim>\<open>getCumulativeAgingDelta\<close>, from counter \<open>i\<close> and accumulator
  \<open>cumulativeDelta\<close> on. The number of years is an integer; the loop does not run when it
  is not positive.
\<close>

function cumulativeLoop :: "real \<Rightarrow> string \<Rightarrow> int \<Rightarrow> int \<Rightarrow> real \<Rightarrow> js_failure + real" where
  "cumulativeLoop currentAge position yearsForward i cumulativeDelta =
     (if i < yearsForward
      then (case getAgingDelta (currentAge + real_of_int i) position of
              Inl e \<Rightarrow> Inl e
            | Inr d \<Rightarrow> cumulativeLoop currentAge position yearsForward (i + 1) (cumulativeDelta + d))
      else Inr cumulativeDelta)"
  by pat_completeness auto
termination
  by (relation "measure (\<lambda>(a, p, n, i, c). nat (n - i))") auto

definition getCumulativeAgingDelta ::
  "season_config \<Rightarrow> real \<Rightarrow> string \<Rightarrow> int \<Rightarrow> bool \<Rightarrow> js_failure + real" where
  "getCumulativeAgingDelta cfg currentAge position yearsForward includePartialCurrentYear =
     (if includePartialCurrentYear
      then (case getPartialYearAgingDelta cfg currentAge position None of
              Inl e \<Rightarrow> Inl e
            | Inr partial \<Rightarrow> cumulativeLoop currentAge position yearsForward 0 (0 + partial))
      else cumulativeLoop currentAge position yearsForward 0 0)"

section \<open>Salary calculation\<close>

text \<open>
  \<^verbatim>\<open>calculateSalary\<close> returns the string \<^verbatim>\<open>"Minimum Salary"\<close> or the decimal string of
  \<^verbatim>\<open>toFixed(1)\<close>. \<^verbatim>\<open>Math.pow\<close> of a base that is not negative is \<open>powr\<close>. The three
  stages of the function are named: the base salary, the capped boost, and the salary
  after the star bonus or replacement penalty.
\<close>

datatype salary = MinimumSalary | Decimal real

definition baseSalary :: "real \<Rightarrow> real \<Rightarrow> real \<Rightarrow> real" where
  "baseSalary games minutes darko =
     (games * minutes / MINUTES_BASELINE) * (darko - REPLACEMENT_LEVEL_DARKO) * WIN_COST_MILLIONS"

definition boostFactor :: "real \<Rightarrow> real" where
  "boostFactor darko = (\<bar>darko\<bar> / MVP_BONUS_DIVISOR) powr MVP_BONUS_EXPONENT * MVP_BONUS_CAP"

definition cappedBoost :: "real \<Rightarrow> real" where
  "cappedBoost darko = min (boostFactor darko) MVP_BONUS_CAP"

definition adjustedSalary :: "real \<Rightarrow> real \<Rightarrow> real \<Rightarrow> real" where
  "adjustedSalary games minutes darko =
     (if 0 < darko then baseSalary games minutes darko * (1 + cappedBoost darko)
      else if darko < 0 then baseSalary games minutes darko * (1 - cappedBoost darko)
      else baseSalary games minutes darko)"

definition calculateSalary :: "real \<Rightarrow> real \<Rightarrow> real \<Rightarrow> salary" where
  "calculateSalary games minutes darko =
     (let salary = adjustedSalary games minutes darko
      in if salary < MINIMUM_SALARY_THRESHOLD then MinimumSalary
         else Decimal (toFixed1 salary))"

section \<open>Projection pipeline (\<^verbatim>\<open>components.jsx\<close>)\<close>

text \<open>
  The accumulation loop written inline in the callback of \<^verbatim>\<open>FUTURE_YEARS.map\<close>, from
  counter \<open>i\<close> and accumulator \<open>cumulativeDelta\<close> on. The array index and \<open>yearOffset\<close>
  are natural numbers.
\<close>

function projectionLoop :: "real \<Rightarrow> string \<Rightarrow> nat \<Rightarrow> nat \<Rightarrow> real \<Rightarrow> js_failure + real" where
  "projectionLoop playerAge playerPos yearOffset i cumulativeDelta =
     (if i < yearOffset
      then (case getAgingDelta (playerAge + real i) playerPos of
              Inl e \<Rightarrow> Inl e
            | Inr d \<Rightarrow> projectionLoop playerAge playerPos yearOffset (Suc i) (cumulativeDelta + d))
      else Inr cumulativeDelta)"
  by pat_completeness auto
termination
  by (relation "measure (\<lambda>(a, p, n, i, c). n - i)") auto

text \<open>
  The fields of a player record that the pipeline reads. \<^verbatim>\<open>actualSalary\<close> may be missing;
  \<^verbatim>\<open>futureSalaries\<close> may be missing as a whole (\<^verbatim>\<open>?.\<close>) or lack a season.
\<close>

record player =
  name :: string
  pos :: string
  age :: real
  darko :: real
  actualSalary :: "real option"
  futureSalaries :: "(string \<times> real) list option"

text \<open>
  \<^verbatim>\<open>displaySalary\<close> is the string \<^verbatim>\<open>"Min"\<close> or \<^verbatim>\<open>`$${inflatedValue.toFixed(1)}M`\<close>, the
  latter represented by the number printed. The field \<^verbatim>\<open>actualSalary\<close> of a row is
  \<open>rowActualSalary\<close>; a \<^verbatim>\<open>null\<close> surplus is \<open>None\<close>.
\<close>

datatype display = DisplayMin | DisplayDollars real

record projection_row =
  seasonLabel :: string
  projectedAge :: real
  displaySalary :: display
  rowActualSalary :: "real option"
  surplus :: "real option"

text \<open>
  \<^verbatim>\<open>INFLATION_SCALERS[seasonLabel] || 1\<close>, with the table of scalers as a parameter. The
  season labels come from \<open>FUTURE_YEARS\<close>, none of which is an inherited property name,
  so the lookups by season label are lookups of own properties.
\<close>

definition inflationScaler :: "(string \<times> real) list \<Rightarrow> string \<Rightarrow> real" where
  "inflationScaler scalers label =
     (case map_of scalers label of None \<Rightarrow> 1 | Some v \<Rightarrow> if v \<noteq> 0 then v else 1)"

definition inflatedValue :: "(string \<times> real) list \<Rightarrow> salary \<Rightarrow> string \<Rightarrow> real" where
  "inflatedValue scalers rawSalary label =
     (case rawSalary of
        MinimumSalary \<Rightarrow> 0
      | Decimal v \<Rightarrow> v * inflationScaler scalers label)"

text \<open>
  \<^verbatim>\<open>currentYearSalary === "Minimum Salary" ? 0 : parseFloat(currentYearSalary)\<close>
\<close>

definition currentProjNum :: "salary \<Rightarrow> real" where
  "currentProjNum currentYearSalary =
     (case currentYearSalary of MinimumSalary \<Rightarrow> 0 | Decimal v \<Rightarrow> v)"

text \<open>\<^verbatim>\<open>player.futureSalaries?.[seasonLabel]\<close>\<close>

definition futureActualSalary :: "player \<Rightarrow> string \<Rightarrow> real option" where
  "futureActualSalary player label =
     (case futureSalaries player of None \<Rightarrow> None | Some fs \<Rightarrow> map_of fs label)"

text \<open>The body of the callback after its loop: the row of one future season.\<close>

definition buildRow ::
  "(string \<times> real) list \<Rightarrow> player \<Rightarrow> real \<Rightarrow> real \<Rightarrow> real \<Rightarrow> string \<Rightarrow> nat \<Rightarrow> real
     \<Rightarrow> projection_row" where
  "buildRow scalers player g m imp label idx cumulativeDelta =
     (let yearOffset = idx + 1;
          projAge = age player + real yearOffset;
          projectedDarko = darko player + imp + cumulativeDelta;
          rawSalary = calculateSalary g m projectedDarko;
          inflated = inflatedValue scalers rawSalary label;
          shown = (case rawSalary of
                     MinimumSalary \<Rightarrow> DisplayMin
                   | Decimal v \<Rightarrow> DisplayDollars (toFixed1 inflated));
          actual = futureActualSalary player label
      in \<lparr> seasonLabel = label,
           projectedAge = projAge,
           displaySalary = shown,
           rowActualSalary = actual,
           surplus = (case actual of
                        None \<Rightarrow> None
                      | Some x \<Rightarrow> if truthy actual then Some (inflated - x) else None) \<rparr>)"

text \<open>
  One call of the callback: it reads and updates \<^verbatim>\<open>runningTotalSurplus\<close>, so the total
  is passed in and returned with the row.
\<close>

definition futureRow ::
  "(string \<times> real) list \<Rightarrow> player \<Rightarrow> real \<Rightarrow> real \<Rightarrow> real \<Rightarrow> real \<Rightarrow> string \<Rightarrow> nat
     \<Rightarrow> js_failure + (projection_row \<times> real)" where
  "futureRow scalers player g m imp runningTotalSurplus label idx =
     (case projectionLoop (age player) (pos player) (idx + 1) 0 0 of
        Inl e \<Rightarrow> Inl e
      | Inr cumulativeDelta \<Rightarrow>
          (let row = buildRow scalers player g m imp label idx cumulativeDelta
           in Inr (row, case surplus row of
                          None \<Rightarrow> runningTotalSurplus
                        | Some s \<Rightarrow> runningTotalSurplus + s)))"

text \<open>
  What a row adds to the running total: \<^verbatim>\<open>if (surplus !== null) runningTotalSurplus += surplus\<close>.
\<close>

definition surplusContribution :: "projection_row \<Rightarrow> real" where
  "surplusContribution row = (case surplus row of None \<Rightarrow> 0 | Some s \<Rightarrow> s)"

text \<open>\<^verbatim>\<open>Array.prototype.map\<close> over the labels paired with their indices.\<close>

fun mapRows ::
  "(string \<times> real) list \<Rightarrow> player \<Rightarrow> real \<Rightarrow> real \<Rightarrow> real \<Rightarrow> real \<Rightarrow> (string \<times> nat) list
     \<Rightarrow> js_failure + (projection_row list \<times> real)" where
  "mapRows scalers player g m imp runningTotalSurplus [] = Inr ([], runningTotalSurplus)"
| "mapRows scalers player g m imp runningTotalSurplus ((label, idx) # rest) =
     (case futureRow scalers player g m imp runningTotalSurplus label idx of
        Inl e \<Rightarrow> Inl e
      | Inr (row, updated) \<Rightarrow>
          (case mapRows scalers player g m imp updated rest of
             Inl e \<Rightarrow> Inl e
           | Inr (rows, final) \<Rightarrow> Inr (row # rows, final)))"

text \<open>
  \<^verbatim>\<open>SalaryProjections\<close> up to its \<^verbatim>\<open>return\<close>: the rows and the running total that the
  markup then shows. The property \<^verbatim>\<open>currentYearAgingDelta\<close> is passed and not read.
\<close>

definition SalaryProjections ::
  "(string \<times> real) list \<Rightarrow> player \<Rightarrow> real \<Rightarrow> real \<Rightarrow> real \<Rightarrow> salary \<Rightarrow> real
     \<Rightarrow> js_failure + (projection_row list \<times> real)" where
  "SalaryProjections scalers player g m imp currentYearSalary currentYearAgingDelta =
     (let runningTotalSurplus =
            (case actualSalary player of
               None \<Rightarrow> 0
             | Some x \<Rightarrow> if truthy (actualSalary player)
                         then currentProjNum currentYearSalary - x else 0)
      in mapRows scalers player g m imp runningTotalSurplus
           (zip FUTURE_YEARS [0..<length FUTURE_YEARS]))"

text \<open>
  The comparison scenario, with the fields \<^verbatim>\<open>PlayerDetails\<close> reads. The component is
  rendered only once a player is selected.
\<close>

record comparison =
  games :: real
  minutes :: real
  improvement :: real
  selectedPlayer :: player

definition PlayerDetails ::
  "season_config \<Rightarrow> (string \<times> real) list \<Rightarrow> comparison
     \<Rightarrow> js_failure + (salary \<times> projection_row list \<times> real)" where
  "PlayerDetails cfg scalers comparison =
     (let player = selectedPlayer comparison
      in case getPartialYearAgingDelta cfg (age player) (pos player) None of
           Inl e \<Rightarrow> Inl e
         | Inr currentYearAgingDelta \<Rightarrow>
             (let adjustedDarkoWithAging = darko player + improvement comparison + currentYearAgingDelta;
                  currentYearSalary =
                    calculateSalary (games comparison) (minutes comparison) adjustedDarkoWithAging
              in case SalaryProjections scalers player (games comparison) (minutes comparison)
                        (improvement comparison) currentYearSalary currentYearAgingDelta of
                   Inl e \<Rightarrow> Inl e
                 | Inr (rows, final) \<Rightarrow> Inr (currentYearSalary, rows, final)))"

section \<open>Properties\<close>

subsection \<open>Rounding to one decimal place\<close>

lemma round_tenth_close: "\<bar>real_of_int \<lfloor>y * 10 + 1 / 2\<rfloor> / 10 - y\<bar> \<le> 1 / 20"
proof -
  define n where "n = real_of_int \<lfloor>y * 10 + 1 / 2\<rfloor>"
  have "n \<le> y * 10 + 1 / 2"
    unfolding n_def by (rule of_int_floor_le)
  moreover have "y * 10 + 1 / 2 < n + 1"
    unfolding n_def by linarith
  ultimately have "\<bar>n / 10 - y\<bar> \<le> 1 / 20"
    by arith
  then show ?thesis
    unfolding n_def .
qed

lemma toFixed1_close: "\<bar>toFixed1 x - x\<bar> \<le> 1 / 20"
proof (cases "x < 0")
  case True
  define n where "n = real_of_int \<lfloor>(- x) * 10 + 1 / 2\<rfloor>"
  have "\<bar>n / 10 - (- x)\<bar> \<le> 1 / 20"
    unfolding n_def by (rule round_tenth_close)
  then have "\<bar>- (n / 10) - x\<bar> \<le> 1 / 20"
    by arith
  moreover have "toFixed1 x = - (n / 10)"
    using True unfolding n_def toFixed1_def by (rule if_P)
  ultimately show ?thesis
    by simp
next
  case False
  then have "toFixed1 x = real_of_int \<lfloor>x * 10 + 1 / 2\<rfloor> / 10"
    unfolding toFixed1_def by (rule if_not_P)
  then show ?thesis
    using round_tenth_close [of x] by (simp only:)
qed

lemma toFixed1_tenths: "\<exists>n::int. toFixed1 x = real_of_int n / 10"
  unfolding toFixed1_def
  by (metis minus_divide_left of_int_minus)

lemma toFixed1_mono_ge: "3 \<le> x \<Longrightarrow> 3 \<le> toFixed1 x"
proof -
  assume h: "3 \<le> x"
  then have "(30::int) \<le> \<lfloor>x * 10 + 1 / 2\<rfloor>" by (simp add: le_floor_iff)
  then have "(30::real) \<le> real_of_int \<lfloor>x * 10 + 1 / 2\<rfloor>" by linarith
  with h show ?thesis by (simp add: toFixed1_def)
qed

subsection \<open>The valuation engine\<close>

lemma boostFactor_nonneg: "0 \<le> boostFactor d"
  by (simp add: boostFactor_def MVP_BONUS_CAP_def)

lemma cappedBoost_bounds: "0 \<le> cappedBoost d \<and> cappedBoost d \<le> 1 / 10"
  using boostFactor_nonneg [of d] by (simp add: cappedBoost_def MVP_BONUS_CAP_def)

lemma cappedBoost_capped: "4 \<le> \<bar>d\<bar> \<Longrightarrow> cappedBoost d = 1 / 10"
proof -
  assume "4 \<le> \<bar>d\<bar>"
  then have "1 \<le> \<bar>d\<bar> / 4" by simp
  then have "1 \<le> (\<bar>d\<bar> / 4) powr (6 / 5)" by (rule ge_one_powr_ge_zero) simp
  then show ?thesis
    by (simp add: cappedBoost_def boostFactor_def MVP_BONUS_CAP_def MVP_BONUS_DIVISOR_def
        MVP_BONUS_EXPONENT_def)
qed

text \<open>
  Claim C1 (valuation floor). For all games, minutes and effective rating: when the
  salary after the star/replacement adjustment is below 3.0, \<open>calculateSalary\<close> returns
  the minimum-salary sentinel; otherwise it returns that salary rounded to one decimal
  place (a multiple of 0.1 at most 0.05 away from it); and a numeric result is never
  below 3.0.
\<close>

theorem valuation_floor:
  "(adjustedSalary g m d < 3 \<longrightarrow> calculateSalary g m d = MinimumSalary) \<and>
   (\<not> adjustedSalary g m d < 3 \<longrightarrow>
      calculateSalary g m d = Decimal (toFixed1 (adjustedSalary g m d)) \<and>
      (\<exists>n::int. toFixed1 (adjustedSalary g m d) = real_of_int n / 10) \<and>
      \<bar>toFixed1 (adjustedSalary g m d) - adjustedSalary g m d\<bar> \<le> 1 / 20) \<and>
   (\<forall>v. calculateSalary g m d = Decimal v \<longrightarrow> 3 \<le> v)"
  using toFixed1_close [of "adjustedSalary g m d"] toFixed1_tenths [of "adjustedSalary g m d"]
    toFixed1_mono_ge [of "adjustedSalary g m d"]
  by (auto simp: calculateSalary_def MINIMUM_SALARY_THRESHOLD_def Let_def)

lemma adj_75: "adjustedSalary 75 35 5 = 199584 / 2950"
  using cappedBoost_capped [of 5]
  by (simp add: adjustedSalary_def baseSalary_def MINUTES_BASELINE_def
      REPLACEMENT_LEVEL_DARKO_def WIN_COST_MILLIONS_def)

lemma adj_30: "adjustedSalary 30 10 0 = 3888 / 1475"
  by (simp add: adjustedSalary_def baseSalary_def MINUTES_BASELINE_def
      REPLACEMENT_LEVEL_DARKO_def WIN_COST_MILLIONS_def)

text \<open>
  Both branches of C1 are taken: the sentinel at (30, 10, 0) and a number at (75, 35, 5).
\<close>

theorem valuation_floor_witness:
  "adjustedSalary 30 10 0 < 3 \<and> calculateSalary 30 10 0 = MinimumSalary \<and>
   \<not> adjustedSalary 75 35 5 < 3 \<and> calculateSalary 75 35 5 = Decimal 67.7 \<and> (3::real) \<le> 67.7"
  using valuation_floor [of 30 10 0] valuation_floor [of 75 35 5]
  by (simp add: adj_75 adj_30 toFixed1_def)

text \<open>
  Claim C2 (boost symmetry and bound). The capped boost is
  \<open>min 0.10 ((\<bar>rating\<bar> / 4) powr 1.2 * 0.10)\<close>, it is the same for a rating and its
  negation and never exceeds 0.10; a positive rating multiplies the base salary by
  \<open>1 + boost\<close>, the negative rating of equal magnitude by \<open>1 - boost\<close>, and a rating of
  exactly 0 leaves the base salary unchanged.
\<close>

theorem boost_symmetry_and_bound:
  "cappedBoost d = min (1 / 10) ((\<bar>d\<bar> / 4) powr (6 / 5) * (1 / 10)) \<and>
   cappedBoost (- d) = cappedBoost d \<and>
   cappedBoost d \<le> 1 / 10 \<and>
   (0 < d \<longrightarrow>
      adjustedSalary g m d = baseSalary g m d * (1 + cappedBoost d) \<and>
      adjustedSalary g m (- d) = baseSalary g m (- d) * (1 - cappedBoost d)) \<and>
   adjustedSalary g m 0 = baseSalary g m 0"
proof -
  have formula: "cappedBoost d = min (1 / 10) ((\<bar>d\<bar> / 4) powr (6 / 5) * (1 / 10))"
    by (simp add: cappedBoost_def boostFactor_def MVP_BONUS_CAP_def MVP_BONUS_DIVISOR_def
        MVP_BONUS_EXPONENT_def min.commute)
  have sym: "cappedBoost (- d) = cappedBoost d"
    by (simp add: cappedBoost_def boostFactor_def)
  have bound: "cappedBoost d \<le> 1 / 10"
    using cappedBoost_bounds [of d] by simp
  have pos: "adjustedSalary g m d = baseSalary g m d * (1 + cappedBoost d)" if "0 < d"
    using that by (simp add: adjustedSalary_def)
  have neg: "adjustedSalary g m (- d) = baseSalary g m (- d) * (1 - cappedBoost d)" if "0 < d"
    using that sym by (simp add: adjustedSalary_def)
  have zero: "adjustedSalary g m 0 = baseSalary g m 0"
    by (simp add: adjustedSalary_def)
  from formula sym bound pos neg zero show ?thesis
    by blast
qed

text \<open>
  C2 at the ratings 5 and -5 with 75 games of 35 minutes.
\<close>

theorem boost_symmetry_and_bound_witness:
  "(0::real) < 5 \<and> cappedBoost 5 = 1 / 10 \<and> cappedBoost (- 5) = 1 / 10 \<and>
   adjustedSalary 75 35 5 = baseSalary 75 35 5 * (1 + 1 / 10) \<and>
   adjustedSalary 75 35 (- 5) = baseSalary 75 35 (- 5) * (1 - 1 / 10)"
  using boost_symmetry_and_bound [of 5 75 35] cappedBoost_capped [of 5]
  by simp

text \<open>
  Claim C3 (end-to-end example), as amended. For games 75, minutes 35 and rating 5.0
  the wins above replacement are 840/59 = 14.237..., the base salary is
  18144/295 = 61.505..., the boost is capped at 0.10, the adjusted salary is 67.655...,
  and \<open>calculateSalary\<close> returns 67.7.
\<close>

theorem end_to_end_example:
  "75 * 35 / MINUTES_BASELINE * (5 - REPLACEMENT_LEVEL_DARKO) = 840 / 59 \<and>
   (14.237 :: real) < 840 / 59 \<and> (840 / 59 :: real) < 14.238 \<and>
   baseSalary 75 35 5 = 18144 / 295 \<and>
   61.505 < baseSalary 75 35 5 \<and> baseSalary 75 35 5 < 61.506 \<and>
   boostFactor 5 \<ge> 0.10 \<and> cappedBoost 5 = 0.10 \<and>
   adjustedSalary 75 35 5 = 99792 / 1475 \<and>
   67.655 < adjustedSalary 75 35 5 \<and> adjustedSalary 75 35 5 < 67.656 \<and>
   calculateSalary 75 35 5 = Decimal 67.7"
proof -
  have cap: "cappedBoost 5 = 1 / 10"
    by (rule cappedBoost_capped) simp
  have "1 \<le> ((5::real) / 4) powr (6 / 5)"
    by (rule ge_one_powr_ge_zero) simp_all
  then have bf: "boostFactor 5 \<ge> 1 / 10"
    by (simp add: boostFactor_def MVP_BONUS_CAP_def MVP_BONUS_DIVISOR_def MVP_BONUS_EXPONENT_def)
  have base: "baseSalary 75 35 5 = 18144 / 295"
    by (simp add: baseSalary_def MINUTES_BASELINE_def REPLACEMENT_LEVEL_DARKO_def
        WIN_COST_MILLIONS_def)
  have adj: "adjustedSalary 75 35 5 = 99792 / 1475"
    by (simp add: adjustedSalary_def base cap)
  have calc: "calculateSalary 75 35 5 = Decimal 67.7"
    by (simp add: calculateSalary_def adj MINIMUM_SALARY_THRESHOLD_def toFixed1_def)
  show ?thesis
    using cap bf calc
    by (simp add: base adj MINUTES_BASELINE_def REPLACEMENT_LEVEL_DARKO_def)
qed

text \<open>
  C3 as stated fails: the result is not 67.6, and the base salary is not within 0.01 of
  61.48.
\<close>

theorem end_to_end_example_counterexample:
  "calculateSalary 75 35 5 \<noteq> Decimal 67.6 \<and> \<not> \<bar>baseSalary 75 35 5 - 61.48\<bar> < 0.01"
proof -
  have cap: "cappedBoost 5 = 1 / 10"
    by (rule cappedBoost_capped) simp
  have base: "baseSalary 75 35 5 = 18144 / 295"
    by (simp add: baseSalary_def MINUTES_BASELINE_def REPLACEMENT_LEVEL_DARKO_def
        WIN_COST_MILLIONS_def)
  have adj: "adjustedSalary 75 35 5 = 99792 / 1475"
    by (simp add: adjustedSalary_def base cap)
  have calc: "calculateSalary 75 35 5 = Decimal 67.7"
    by (simp add: calculateSalary_def adj MINIMUM_SALARY_THRESHOLD_def toFixed1_def)
  show ?thesis
    by (simp add: calc base)
qed

subsection \<open>The aging tables\<close>

lemma age_key_cases:
  "(k::int) \<in> {20..36} \<Longrightarrow>
     k = 20 \<or> k = 21 \<or> k = 22 \<or> k = 23 \<or> k = 24 \<or> k = 25 \<or> k = 26 \<or> k = 27 \<or> k = 28 \<or>
     k = 29 \<or> k = 30 \<or> k = 31 \<or> k = 32 \<or> k = 33 \<or> k = 34 \<or> k = 35 \<or> k = 36"
  by (simp; arith)

lemma curve_keys: "k \<in> {20..36} \<Longrightarrow> k \<in> fst ` set (AGING_CURVES c)"
  by (drule age_key_cases, cases c) auto

lemma curve_defined: "k \<in> {20..36} \<Longrightarrow> \<exists>d. map_of (AGING_CURVES c) k = Some d"
  using curve_keys [of k c] map_of_eq_None_iff [of "AGING_CURVES c" k] by blast

lemma ageKey_range: "max 20 (min 36 \<lfloor>a::real\<rfloor>) \<in> {20..36}"
  by simp

lemma curveDelta_defined: "\<exists>d. curveDelta c a = Inr d"
  using curve_defined [OF ageKey_range, of c a]
  by (auto simp: curveDelta_def Let_def split: option.splits)

lemma curveDelta_low: "a < 20 \<Longrightarrow> curveDelta c a = curveDelta c 20"
proof -
  assume "a < 20"
  then have "\<lfloor>a\<rfloor> < 20" by (simp add: floor_less_iff)
  then have "max 20 (min 36 \<lfloor>a\<rfloor>) = 20" by simp
  then show ?thesis by (simp add: curveDelta_def)
qed

lemma curveDelta_high: "36 \<le> a \<Longrightarrow> curveDelta c a = curveDelta c 36"
proof -
  assume "36 \<le> a"
  then have "36 \<le> \<lfloor>a\<rfloor>" by (simp add: le_floor_iff)
  then have "max 20 (min 36 \<lfloor>a\<rfloor>) = 36" by simp
  then show ?thesis by (simp add: curveDelta_def)
qed

lemma positionCategory_known:
  "positionCategory ''pg_pos'' = Some guard" "positionCategory ''sg_pos'' = Some guard"
  "positionCategory ''sf_pos'' = Some wing" "positionCategory ''pf_pos'' = Some big"
  "positionCategory ''c_pos'' = Some big"
  by (simp_all add: positionCategory_def js_get_def POSITION_CATEGORIES_def)

text \<open>
  Claim C7 (aging table completeness). For every category and every age the lookup of
  \<open>getAgingDelta\<close> yields a number; every integer age from 20 to 36 is a key of each
  category's table; an age below 20 gives the value at 20 and an age above 36 the value
  at 36; each of the five position codes resolves to a category and yields a number; and
  the examples at ages 15 and 50 agree with the boundary values.
\<close>

theorem aging_table_complete:
  "(\<exists>d. curveDelta c a = Inr d) \<and>
   (\<forall>k\<in>{20..36}. \<exists>d. map_of (AGING_CURVES c) k = Some d) \<and>
   (a < 20 \<longrightarrow> curveDelta c a = curveDelta c 20) \<and>
   (36 < a \<longrightarrow> curveDelta c a = curveDelta c 36) \<and>
   (p \<in> {''pg_pos'', ''sg_pos'', ''sf_pos'', ''pf_pos'', ''c_pos''} \<longrightarrow>
      (\<exists>c' d. positionCategory p = Some c' \<and> getAgingDelta a p = curveDelta c' a \<and>
         getAgingDelta a p = Inr d)) \<and>
   getAgingDelta 15 ''pg_pos'' = getAgingDelta 20 ''pg_pos'' \<and>
   getAgingDelta 50 ''c_pos'' = getAgingDelta 36 ''c_pos'' \<and>
   getAgingDelta 15 ''guard'' = getAgingDelta 20 ''guard'' \<and>
   getAgingDelta 50 ''big'' = getAgingDelta 36 ''big''"
proof -
  have tab: "\<forall>k\<in>{20..36}. \<exists>d. map_of (AGING_CURVES c) k = Some d"
    using curve_defined [of _ c] by auto
  have known: "\<exists>c' d. positionCategory p = Some c' \<and> getAgingDelta a p = curveDelta c' a \<and>
      getAgingDelta a p = Inr d"
    if "p \<in> {''pg_pos'', ''sg_pos'', ''sf_pos'', ''pf_pos'', ''c_pos''}"
  proof -
    from that obtain c' where c': "positionCategory p = Some c'"
      using positionCategory_known by auto
    then have "getAgingDelta a p = curveDelta c' a"
      by (simp add: getAgingDelta_def)
    with c' curveDelta_defined [of c' a] show ?thesis
      by auto
  qed
  have ex: "getAgingDelta x q = getAgingDelta y q"
    if "curveDelta guard x = curveDelta guard y" "curveDelta wing x = curveDelta wing y"
      "curveDelta big x = curveDelta big y" for x y q
  proof (cases "positionCategory q")
    case None
    then show ?thesis by (simp add: getAgingDelta_def)
  next
    case (Some c')
    with that show ?thesis by (cases c') (simp_all add: getAgingDelta_def)
  qed
  show ?thesis
    using curveDelta_defined [of c a] tab curveDelta_low [of a c] curveDelta_high [of a c] known
      ex [of 15 20] ex [of 50 36] curveDelta_low [of 15] curveDelta_high [of 50]
    by simp
qed

text \<open>
  C7 at concrete ages, with the values of the tables.
\<close>

theorem aging_table_complete_witness:
  "(25::int) \<in> {20..36} \<and> map_of (AGING_CURVES guard) 25 = Some 0.08 \<and>
   (15::real) < 20 \<and> curveDelta guard 15 = Inr 0.60 \<and> curveDelta guard 20 = Inr 0.60 \<and>
   (36::real) < 50 \<and> curveDelta big 50 = Inr (-1.45) \<and> curveDelta big 36 = Inr (-1.45) \<and>
   getAgingDelta 25 ''pg_pos'' = Inr 0.08 \<and> getAgingDelta 33 ''c_pos'' = Inr (-0.70)"
  using aging_table_complete [of guard 15 "''pg_pos''"] aging_table_complete [of big 50 "''c_pos''"]
  by (simp add: curveDelta_def getAgingDelta_def positionCategory_known)

subsection \<open>The season clock\<close>

lemma getSeasonProgress_proper:
  assumes "seasonStartDate cfg < seasonEndDate cfg"
  shows "getSeasonProgress cfg (Some t) =
    Inr (max 0 (min 1 (real_of_int (t - seasonStartDate cfg) /
                        real_of_int (seasonEndDate cfg - seasonStartDate cfg))))"
  using assms by (simp add: getSeasonProgress_def Let_def)

text \<open>
  Claim C8 (season progress). For a season that starts before it ends,
  \<open>getSeasonProgress\<close> is the elapsed fraction clamped to [0, 1]: 0 at or before the start,
  1 at or after the end, always between 0 and 1, and monotone in the date; without an
  argument it is the progress at the data date.
\<close>

theorem season_progress_clamped_monotone:
  assumes "seasonStartDate cfg < seasonEndDate cfg"
  shows "getSeasonProgress cfg (Some t) =
      Inr (max 0 (min 1 (real_of_int (t - seasonStartDate cfg) /
                          real_of_int (seasonEndDate cfg - seasonStartDate cfg)))) \<and>
    (t \<le> seasonStartDate cfg \<longrightarrow> getSeasonProgress cfg (Some t) = Inr 0) \<and>
    (seasonEndDate cfg \<le> t \<longrightarrow> getSeasonProgress cfg (Some t) = Inr 1) \<and>
    (\<exists>p. getSeasonProgress cfg (Some t) = Inr p \<and> 0 \<le> p \<and> p \<le> 1) \<and>
    (t1 \<le> t2 \<longrightarrow>
       (\<exists>p1 p2. getSeasonProgress cfg (Some t1) = Inr p1 \<and>
                getSeasonProgress cfg (Some t2) = Inr p2 \<and> p1 \<le> p2)) \<and>
    getSeasonProgress cfg None = getSeasonProgress cfg (Some (dataAsOfDate cfg))"
proof -
  define s where "s = seasonStartDate cfg"
  define e where "e = seasonEndDate cfg"
  have dur: "0 < real_of_int (e - s)"
    using assms by (simp add: s_def e_def)
  have eq: "getSeasonProgress cfg (Some x) =
      Inr (max 0 (min 1 (real_of_int (x - s) / real_of_int (e - s))))" for x
    unfolding s_def e_def by (rule getSeasonProgress_proper [OF assms])
  have before: "max 0 (min 1 (real_of_int (t - s) / real_of_int (e - s))) = 0" if "t \<le> s"
  proof -
    from that have "real_of_int (t - s) \<le> 0" by simp
    with dur have "real_of_int (t - s) / real_of_int (e - s) \<le> 0"
      by (simp add: divide_le_0_iff)
    then show ?thesis by simp
  qed
  have after: "max 0 (min 1 (real_of_int (t - s) / real_of_int (e - s))) = 1" if "e \<le> t"
  proof -
    from that have "real_of_int (e - s) \<le> real_of_int (t - s)" by simp
    with dur have "1 \<le> real_of_int (t - s) / real_of_int (e - s)"
      by (simp add: le_divide_eq)
    then show ?thesis by simp
  qed
  have mono: "max 0 (min 1 (real_of_int (t1 - s) / real_of_int (e - s)))
      \<le> max 0 (min 1 (real_of_int (t2 - s) / real_of_int (e - s)))" if "t1 \<le> t2"
  proof -
    from that have "real_of_int (t1 - s) \<le> real_of_int (t2 - s)" by simp
    with dur have "real_of_int (t1 - s) / real_of_int (e - s)
        \<le> real_of_int (t2 - s) / real_of_int (e - s)"
      by (simp add: divide_right_mono)
    then show ?thesis by (simp add: max_def min_def)
  qed
  have dflt: "getSeasonProgress cfg None = getSeasonProgress cfg (Some (dataAsOfDate cfg))"
    by (simp add: getSeasonProgress_def)
  show ?thesis
    using before after mono dflt unfolding eq s_def [symmetric] e_def [symmetric]
    by simp
qed

text \<open>
  C8 for the configured 2025-26 season: 98/173 at the data date, 0 at the start and 1 at
  the end.
\<close>

theorem season_progress_clamped_monotone_witness:
  "seasonStartDate SEASON_CONFIG < seasonEndDate SEASON_CONFIG \<and>
   getSeasonProgress SEASON_CONFIG (Some 1769558400000) = Inr (98 / 173) \<and>
   getSeasonProgress SEASON_CONFIG (Some 1761091200000) = Inr 0 \<and>
   getSeasonProgress SEASON_CONFIG (Some 1776038400000) = Inr 1 \<and>
   (1761091200000 :: int) \<le> 1776038400000 \<and>
   getSeasonProgress SEASON_CONFIG None = Inr (98 / 173)"
proof -
  have h: "seasonStartDate SEASON_CONFIG < seasonEndDate SEASON_CONFIG"
    by (simp add: SEASON_CONFIG_def)
  show ?thesis
    using season_progress_clamped_monotone [OF h, of 1769558400000 1761091200000 1776038400000]
      season_progress_clamped_monotone [OF h, of 1761091200000 0 0]
      season_progress_clamped_monotone [OF h, of 1776038400000 0 0]
    by (simp add: SEASON_CONFIG_def)
qed

subsection \<open>Position codes outside the table\<close>

lemma positionCategory_unknown:
  assumes "position \<notin> {''pg_pos'', ''sg_pos'', ''sf_pos'', ''pf_pos'', ''c_pos''}"
    and "position \<notin> set Object_prototype_names"
  shows "positionCategory position = Some wing"
  using assms
  by (simp add: positionCategory_def js_get_def POSITION_CATEGORIES_def
      DEFAULT_POSITION_CATEGORY_def)

lemma unknown_position_uses_wing:
  assumes "position \<notin> {''pg_pos'', ''sg_pos'', ''sf_pos'', ''pf_pos'', ''c_pos''}"
    and "position \<notin> set Object_prototype_names"
  shows "getAgingDelta a position = getAgingDelta a ''sf_pos''"
  using positionCategory_unknown [OF assms]
  by (simp add: getAgingDelta_def positionCategory_known)

lemma inherited_position_throws:
  "position \<in> set Object_prototype_names \<Longrightarrow> getAgingDelta a position = Inl TypeError"
  by (auto simp: getAgingDelta_def positionCategory_def js_get_def POSITION_CATEGORIES_def
      Object_prototype_names_def)

text \<open>
  Claim C9 (unknown position code), at a failing input. \<open>toString\<close> is not one of the
  five position codes, yet \<open>getAgingDelta\<close> throws on it instead of using the wing
  category, which it does use for an unknown code such as \<open>center\<close>.
\<close>

theorem unknown_position_toString:
  "''toString'' \<notin> {''pg_pos'', ''sg_pos'', ''sf_pos'', ''pf_pos'', ''c_pos''} \<and>
   getAgingDelta 25 ''toString'' = Inl TypeError \<and>
   getAgingDelta 25 ''sf_pos'' = Inr 0.10 \<and>
   getAgingDelta 25 ''center'' = Inr 0.10"
  by (simp add: getAgingDelta_def positionCategory_def js_get_def POSITION_CATEGORIES_def
      Object_prototype_names_def DEFAULT_POSITION_CATEGORY_def curveDelta_def)

subsection \<open>Cumulative aging deltas\<close>

lemma cumulativeLoop_sum:
  assumes "\<forall>j. i \<le> j \<and> j < n \<longrightarrow> getAgingDelta (a + real_of_int j) p = Inr (d j)"
  shows "cumulativeLoop a p n i acc = Inr (acc + (\<Sum>j = i..<n. d j))"
  using assms
proof (induction a p n i acc rule: cumulativeLoop.induct)
  case (1 a p n i acc)
  show ?case
  proof (cases "i < n")
    case True
    then have step: "getAgingDelta (a + real_of_int i) p = Inr (d i)"
      using "1.prems" by simp
    have rest: "cumulativeLoop a p n (i + 1) (acc + d i) = Inr (acc + d i + (\<Sum>j = i + 1..<n. d j))"
      using "1.IH" [OF True step] "1.prems" by simp
    have "{i..<n} = insert i {i + 1..<n}"
      using True by auto
    then have "(\<Sum>j = i..<n. d j) = d i + (\<Sum>j = i + 1..<n. d j)"
      by simp
    with True step rest show ?thesis
      by (subst cumulativeLoop.simps) simp
  next
    case False
    then show ?thesis
      by (subst cumulativeLoop.simps) simp
  qed
qed

lemma loops_agree:
  "projectionLoop a p k i acc = cumulativeLoop a p (int k) (int i) acc"
proof (induction a p k i acc rule: projectionLoop.induct)
  case (1 a p k i acc)
  note unfold_p = projectionLoop.simps [of a p k i acc]
  note unfold_c = cumulativeLoop.simps [of a p "int k" "int i" acc]
  show ?case
  proof (cases "i < k")
    case True
    show ?thesis
    proof (cases "getAgingDelta (a + real i) p")
      case (Inl e)
      with True unfold_p unfold_c show ?thesis
        by simp
    next
      case (Inr x)
      have "projectionLoop a p k i acc = projectionLoop a p k (Suc i) (acc + x)"
        using unfold_p True Inr by simp
      also have "\<dots> = cumulativeLoop a p (int k) (int (Suc i)) (acc + x)"
        by (rule "1.IH" [OF True Inr])
      also have "\<dots> = cumulativeLoop a p (int k) (int i + 1) (acc + x)"
        by (simp add: add.commute)
      also have "\<dots> = cumulativeLoop a p (int k) (int i) acc"
        using unfold_c True Inr by simp
      finally show ?thesis .
    qed
  next
    case False
    with unfold_p unfold_c show ?thesis
      by simp
  qed
qed

text \<open>
  Claim C6 (cumulative delta decomposition). When \<open>getAgingDelta\<close> yields \<open>d j\<close> at
  age + j for every j in [0, n), \<open>getCumulativeAgingDelta\<close> without the partial year
  yields the sum of the \<open>d j\<close>; its result is the same under every season configuration;
  and the loop written inline in the projection pipeline computes the same result.
\<close>

theorem cumulative_delta_decomposition:
  "((\<forall>j. 0 \<le> j \<and> j < n \<longrightarrow> getAgingDelta (a + real_of_int j) p = Inr (d j)) \<longrightarrow>
      getCumulativeAgingDelta cfg a p n False = Inr (\<Sum>j = 0..<n. d j)) \<and>
   getCumulativeAgingDelta cfg a p n False = getCumulativeAgingDelta cfg' a p n False \<and>
   projectionLoop a p k 0 0 = getCumulativeAgingDelta cfg a p (int k) False"
  using cumulativeLoop_sum [of 0 n a p d 0] loops_agree [of a p k 0 0]
  by (simp add: getCumulativeAgingDelta_def)

lemma wing_25_27:
  "getAgingDelta 25 ''sf_pos'' = Inr 0.10 \<and> getAgingDelta 26 ''sf_pos'' = Inr 0.03 \<and>
   getAgingDelta 27 ''sf_pos'' = Inr 0.00"
  by (simp add: getAgingDelta_def positionCategory_known curveDelta_def)

text \<open>
  C6 for a wing aged 25 over three years: 0.10 + 0.03 + 0.00.
\<close>

theorem cumulative_delta_decomposition_witness:
  "getAgingDelta 25 ''sf_pos'' = Inr 0.10 \<and> getAgingDelta 26 ''sf_pos'' = Inr 0.03 \<and>
   getAgingDelta 27 ''sf_pos'' = Inr 0.00 \<and>
   getCumulativeAgingDelta SEASON_CONFIG 25 ''sf_pos'' 3 False = Inr 0.13 \<and>
   projectionLoop 25 ''sf_pos'' 3 0 0 = Inr 0.13"
proof -
  define d :: "int \<Rightarrow> real" where "d j = (if j = 0 then 0.10 else if j = 1 then 0.03 else 0.00)" for j
  have hyp: "\<forall>j. 0 \<le> j \<and> j < 3 \<longrightarrow> getAgingDelta (25 + real_of_int j) ''sf_pos'' = Inr (d j)"
  proof (intro allI impI)
    fix j :: int
    assume "0 \<le> j \<and> j < 3"
    then consider "j = 0" | "j = 1" | "j = 2" by fastforce
    then show "getAgingDelta (25 + real_of_int j) ''sf_pos'' = Inr (d j)"
      using wing_25_27 by cases (simp_all add: d_def)
  qed
  have "{0..<3::int} = {0, 1, 2}" by auto
  then have total: "(\<Sum>j = 0..<3. d j) = 0.13"
    by (simp add: d_def)
  note inst = cumulative_delta_decomposition [of 3 25 "''sf_pos''" d SEASON_CONFIG SEASON_CONFIG 3]
  from inst hyp have cum: "getCumulativeAgingDelta SEASON_CONFIG 25 ''sf_pos'' 3 False = Inr (\<Sum>j = 0..<3. d j)"
    by blast
  from inst have "projectionLoop 25 ''sf_pos'' 3 0 0 = getCumulativeAgingDelta SEASON_CONFIG 25 ''sf_pos'' (int 3) False"
    by blast
  then have loop: "projectionLoop 25 ''sf_pos'' 3 0 0 = getCumulativeAgingDelta SEASON_CONFIG 25 ''sf_pos'' 3 False"
    by simp
  from wing_25_27 cum loop show ?thesis
    unfolding total by simp
qed

subsection \<open>The projection pipeline\<close>

lemma projectionLoop_sum:
  assumes "\<forall>j<n. getAgingDelta (a + real j) p = Inr (d j)"
  shows "projectionLoop a p n i acc = Inr (acc + (\<Sum>j = i..<n. d j))"
  using assms
proof (induction a p n i acc rule: projectionLoop.induct)
  case (1 a p n i acc)
  note unfold_p = projectionLoop.simps [of a p n i acc]
  show ?case
  proof (cases "i < n")
    case True
    then have step: "getAgingDelta (a + real i) p = Inr (d i)"
      using "1.prems" by simp
    have "projectionLoop a p n i acc = projectionLoop a p n (Suc i) (acc + d i)"
      using unfold_p True step by simp
    also have "\<dots> = Inr (acc + d i + (\<Sum>j = Suc i..<n. d j))"
      using "1.IH" [OF True step] "1.prems" by simp
    also have "acc + d i + (\<Sum>j = Suc i..<n. d j) = acc + (\<Sum>j = i..<n. d j)"
      using True by (simp add: sum.atLeast_Suc_lessThan)
    finally show ?thesis .
  next
    case False
    with unfold_p show ?thesis by simp
  qed
qed

lemma futureRow_ok:
  assumes "\<forall>j<Suc idx. getAgingDelta (age pl + real j) (pos pl) = Inr (d j)"
  shows "futureRow sc pl g m imp rt label idx =
    Inr (buildRow sc pl g m imp label idx (\<Sum>j<Suc idx. d j),
         rt + surplusContribution (buildRow sc pl g m imp label idx (\<Sum>j<Suc idx. d j)))"
proof -
  have "projectionLoop (age pl) (pos pl) (idx + 1) 0 0 = Inr (0 + (\<Sum>j = 0..<idx + 1. d j))"
    by (rule projectionLoop_sum) (use assms in simp)
  then have "projectionLoop (age pl) (pos pl) (idx + 1) 0 0 = Inr (\<Sum>j<Suc idx. d j)"
    by (simp add: atLeast0LessThan)
  then show ?thesis
    by (simp add: futureRow_def Let_def surplusContribution_def split: option.split)
qed

lemma mapRows_ok:
  assumes "\<forall>j<N. getAgingDelta (age pl + real j) (pos pl) = Inr (d j)"
    and "\<forall>x\<in>set xs. snd x < N"
  shows "mapRows sc pl g m imp rt xs =
    Inr (map (\<lambda>(label, idx). buildRow sc pl g m imp label idx (\<Sum>j<Suc idx. d j)) xs,
         rt + (\<Sum>(label, idx)\<leftarrow>xs.
                 surplusContribution (buildRow sc pl g m imp label idx (\<Sum>j<Suc idx. d j))))"
  using assms(2)
proof (induction xs arbitrary: rt)
  case Nil
  then show ?case by simp
next
  case (Cons x xs)
  obtain label idx where x: "x = (label, idx)" by (cases x)
  with Cons.prems have "idx < N" by simp
  with assms(1) have "\<forall>j<Suc idx. getAgingDelta (age pl + real j) (pos pl) = Inr (d j)"
    by simp
  note row = futureRow_ok [OF this, of sc g m imp rt label]
  from Cons.prems have "\<forall>x\<in>set xs. snd x < N" by simp
  note rest = Cons.IH [OF this]
  show ?case
    by (simp add: x row rest add.assoc)
qed

lemma seasons_eq:
  "zip FUTURE_YEARS [0..<length FUTURE_YEARS] =
     [(''2026-27'', 0), (''2027-28'', 1), (''2028-29'', 2), (''2029-30'', 3), (''2030-31'', 4)]"
  by (simp add: FUTURE_YEARS_def upt_rec)

lemma deltas_exist:
  assumes "positionCategory p = Some c"
  obtains d where "\<forall>j::nat. getAgingDelta (a + real j) p = Inr (d j)"
proof -
  have "\<forall>x. \<exists>v. curveDelta c x = Inr v"
    using curveDelta_defined by simp
  then obtain f where f: "\<forall>x. curveDelta c x = Inr (f x)"
    by metis
  show thesis
  proof (rule that [of "\<lambda>j. f (a + real j)"])
    show "\<forall>j::nat. getAgingDelta (a + real j) p = Inr (f (a + real j))"
      using assms f by (simp add: getAgingDelta_def)
  qed
qed

lemma length_FUTURE_YEARS: "length FUTURE_YEARS = 5"
  by (simp add: FUTURE_YEARS_def)

lemma SalaryProjections_ok:
  assumes "\<forall>j<5. getAgingDelta (age pl + real j) (pos pl) = Inr (d j)"
    and "rows = map (\<lambda>k. buildRow sc pl g m imp (FUTURE_YEARS ! k) k (\<Sum>j\<le>k. d j)) [0..<5]"
  shows "SalaryProjections sc pl g m imp cys cyd =
      Inr (rows,
           (case actualSalary pl of
              None \<Rightarrow> 0
            | Some x \<Rightarrow> if x = 0 then 0 else currentProjNum cys - x)
           + sum_list (map surplusContribution rows))"
proof -
  let ?xs = "zip FUTURE_YEARS [0..<length FUTURE_YEARS]"
  let ?f = "\<lambda>(label, idx). buildRow sc pl g m imp label idx (\<Sum>j<Suc idx. d j)"
  let ?init = "case actualSalary pl of
                None \<Rightarrow> 0
              | Some x \<Rightarrow> if x = 0 then 0 else currentProjNum cys - x"
  have bound: "\<forall>x\<in>set ?xs. snd x < 5"
    by (simp add: seasons_eq)
  have rows: "map ?f ?xs = rows"
    unfolding assms(2)
    by (rule nth_equalityI) (simp_all add: length_FUTURE_YEARS lessThan_Suc_atMost)
  have contrib: "(\<Sum>(label, idx)\<leftarrow>?xs.
        surplusContribution (buildRow sc pl g m imp label idx (\<Sum>j<Suc idx. d j)))
      = sum_list (map surplusContribution (map ?f ?xs))"
    by (simp add: comp_def case_prod_unfold)
  have init: "(case actualSalary pl of
               None \<Rightarrow> 0
             | Some x \<Rightarrow> if truthy (actualSalary pl) then currentProjNum cys - x else 0) = ?init"
    by (simp add: truthy_def split: option.split)
  have "SalaryProjections sc pl g m imp cys cyd =
      Inr (map ?f ?xs, ?init + sum_list (map surplusContribution (map ?f ?xs)))"
    unfolding SalaryProjections_def Let_def init
    using mapRows_ok [OF assms(1) bound, of sc g m imp ?init] contrib by simp
  then show ?thesis
    unfolding rows .
qed

lemma rows_nth:
  assumes "rows = map (\<lambda>k. buildRow sc pl g m imp (FUTURE_YEARS ! k) k (\<Sum>j\<le>k. d j)) [0..<5]"
    and "k < 5"
  shows "rows ! k = buildRow sc pl g m imp (FUTURE_YEARS ! k) k (\<Sum>j\<le>k. d j)"
  using assms by simp

lemma buildRow_fields:
  "seasonLabel (buildRow sc pl g m imp label idx cd) = label"
  "projectedAge (buildRow sc pl g m imp label idx cd) = age pl + real (idx + 1)"
  "rowActualSalary (buildRow sc pl g m imp label idx cd) = futureActualSalary pl label"
  "displaySalary (buildRow sc pl g m imp label idx cd) =
     (case calculateSalary g m (darko pl + imp + cd) of
        MinimumSalary \<Rightarrow> DisplayMin
      | Decimal v \<Rightarrow> DisplayDollars (toFixed1 (v * inflationScaler sc label)))"
  "surplus (buildRow sc pl g m imp label idx cd) =
     (case futureActualSalary pl label of
        None \<Rightarrow> None
      | Some x \<Rightarrow>
          if x = 0 then None
          else Some (inflatedValue sc (calculateSalary g m (darko pl + imp + cd)) label - x))"
  by (simp_all add: buildRow_def Let_def truthy_def inflatedValue_def
      split: option.split salary.split)

lemma inflationScaler_cases:
  "(map_of sc label = None \<longrightarrow> inflationScaler sc label = 1) \<and>
   (\<forall>s. map_of sc label = Some s \<and> s \<noteq> 0 \<longrightarrow> inflationScaler sc label = s)"
  by (simp add: inflationScaler_def)

lemma partial_delta_ok:
  assumes "getAgingDelta a p = Inr d0" and "getSeasonProgress cfg None = Inr sp"
  shows "getPartialYearAgingDelta cfg a p None = Inr (d0 * sp)"
  using assms by (simp add: getPartialYearAgingDelta_def)

lemma PlayerDetails_ok:
  assumes d: "\<forall>j<5. getAgingDelta (age pl + real j) (pos pl) = Inr (d j)"
    and sp: "getSeasonProgress cfg None = Inr sp"
    and rows: "rows = map (\<lambda>k. buildRow sc pl g m imp (FUTURE_YEARS ! k) k (\<Sum>j\<le>k. d j)) [0..<5]"
  shows "\<exists>total. PlayerDetails cfg sc
      \<lparr>games = g, minutes = m, improvement = imp, selectedPlayer = pl\<rparr> =
    Inr (calculateSalary g m (darko pl + imp + d 0 * sp), rows, total)"
proof -
  from d have "getAgingDelta (age pl) (pos pl) = Inr (d 0)"
    by (metis add.right_neutral of_nat_0 zero_less_numeral)
  from partial_delta_ok [OF this sp]
  have part: "getPartialYearAgingDelta cfg (age pl) (pos pl) None = Inr (d 0 * sp)" .
  show ?thesis
    by (simp add: PlayerDetails_def Let_def part SalaryProjections_ok [OF d rows])
qed

lemma getAgingDelta_fails:
  "positionCategory p = None \<Longrightarrow> getAgingDelta a p = Inl TypeError"
  by (simp add: getAgingDelta_def)

lemma projectionLoop_fails:
  assumes "positionCategory p = None"
  shows "projectionLoop a p (Suc n) 0 acc = Inl TypeError"
  using projectionLoop.simps [of a p "Suc n" 0 acc] getAgingDelta_fails [OF assms, of "a + real 0"]
  by simp

lemma SalaryProjections_fails:
  assumes "positionCategory (pos pl) = None"
  shows "SalaryProjections sc pl g m imp cys cyd = Inl TypeError"
  using projectionLoop_fails [OF assms, of "age pl" 0 0]
  by (simp add: SalaryProjections_def Let_def seasons_eq futureRow_def)

lemma PlayerDetails_fails:
  assumes "positionCategory (pos pl) = None"
  shows "PlayerDetails cfg sc \<lparr>games = g, minutes = m, improvement = imp, selectedPlayer = pl\<rparr>
    = Inl TypeError"
  using getAgingDelta_fails [OF assms, of "age pl"]
  by (simp add: PlayerDetails_def getPartialYearAgingDelta_def)

text \<open>
  Claim C4 (projection of a future season). For every player and scenario, either the
  position code is an inherited property name and \<open>PlayerDetails\<close> throws, or, with
  \<open>d j\<close> the full-year delta at age + j and \<open>sp\<close> the season progress:
  \<open>PlayerDetails\<close> values the current season at
  \<open>calculateSalary g m (darko + improvement + d 0 * sp)\<close> and yields five rows; the row of
  future season k + 1 is valued at
  \<open>calculateSalary g m (darko + improvement + (d 0 + ... + d k))\<close>, shown as the sentinel
  or as that number times the season's inflation scaler, which is the table's entry and 1
  when the table has none; its surplus is that product minus the actual salary. The rows
  are the same under every season configuration, so no partial-year term enters them.
\<close>

theorem projection_season_valuation:
  assumes "getSeasonProgress cfg None = Inr sp"
    and "k < 5"
  shows "(positionCategory (pos pl) = None \<and>
     PlayerDetails cfg sc \<lparr>games = g, minutes = m, improvement = imp, selectedPlayer = pl\<rparr> =
       Inl TypeError) \<or>
   (\<exists>d rows total.
    (\<forall>j<5. getAgingDelta (age pl + real j) (pos pl) = Inr (d j)) \<and>
    PlayerDetails cfg sc \<lparr>games = g, minutes = m, improvement = imp, selectedPlayer = pl\<rparr> =
      Inr (calculateSalary g m (darko pl + imp + d 0 * sp), rows, total) \<and>
    length rows = 5 \<and>
    seasonLabel (rows ! k) = FUTURE_YEARS ! k \<and>
    (case calculateSalary g m (darko pl + imp + (\<Sum>j\<le>k. d j)) of
       MinimumSalary \<Rightarrow> displaySalary (rows ! k) = DisplayMin
     | Decimal v \<Rightarrow>
         displaySalary (rows ! k) =
           DisplayDollars (toFixed1 (v * inflationScaler sc (FUTURE_YEARS ! k))) \<and>
         (\<forall>x. futureActualSalary pl (FUTURE_YEARS ! k) = Some x \<and> x \<noteq> 0 \<longrightarrow>
            surplus (rows ! k) = Some (v * inflationScaler sc (FUTURE_YEARS ! k) - x))) \<and>
    (map_of sc (FUTURE_YEARS ! k) = None \<longrightarrow> inflationScaler sc (FUTURE_YEARS ! k) = 1) \<and>
    (\<forall>s. map_of sc (FUTURE_YEARS ! k) = Some s \<and> s \<noteq> 0 \<longrightarrow>
       inflationScaler sc (FUTURE_YEARS ! k) = s) \<and>
    (\<forall>cfg' sp'. getSeasonProgress cfg' None = Inr sp' \<longrightarrow>
       (\<exists>total'. PlayerDetails cfg' sc
            \<lparr>games = g, minutes = m, improvement = imp, selectedPlayer = pl\<rparr> =
          Inr (calculateSalary g m (darko pl + imp + d 0 * sp'), rows, total'))))"
proof (cases "positionCategory (pos pl)")
  case None
  show ?thesis
    by (intro disjI1 conjI None PlayerDetails_fails)
next
  case (Some c)
  obtain d where "\<forall>j::nat. getAgingDelta (age pl + real j) (pos pl) = Inr (d j)"
    by (rule deltas_exist [OF Some])
  then have d: "\<forall>j<5. getAgingDelta (age pl + real j) (pos pl) = Inr (d j)"
    by simp
  define rows where
    "rows = map (\<lambda>k. buildRow sc pl g m imp (FUTURE_YEARS ! k) k (\<Sum>j\<le>k. d j)) [0..<5]"
  obtain total where run: "PlayerDetails cfg sc
      \<lparr>games = g, minutes = m, improvement = imp, selectedPlayer = pl\<rparr> =
    Inr (calculateSalary g m (darko pl + imp + d 0 * sp), rows, total)"
    using PlayerDetails_ok [OF d assms(1) rows_def] by blast
  have len: "length rows = 5"
    by (simp add: rows_def)
  note row = rows_nth [OF rows_def assms(2)]
  have label: "seasonLabel (rows ! k) = FUTURE_YEARS ! k"
    by (simp add: row buildRow_fields)
  have shown: "case calculateSalary g m (darko pl + imp + (\<Sum>j\<le>k. d j)) of
       MinimumSalary \<Rightarrow> displaySalary (rows ! k) = DisplayMin
     | Decimal v \<Rightarrow>
         displaySalary (rows ! k) =
           DisplayDollars (toFixed1 (v * inflationScaler sc (FUTURE_YEARS ! k))) \<and>
         (\<forall>x. futureActualSalary pl (FUTURE_YEARS ! k) = Some x \<and> x \<noteq> 0 \<longrightarrow>
            surplus (rows ! k) = Some (v * inflationScaler sc (FUTURE_YEARS ! k) - x))"
    by (simp add: row buildRow_fields inflatedValue_def split: salary.split)
  have other: "\<forall>cfg' sp'. getSeasonProgress cfg' None = Inr sp' \<longrightarrow>
       (\<exists>total'. PlayerDetails cfg' sc
            \<lparr>games = g, minutes = m, improvement = imp, selectedPlayer = pl\<rparr> =
          Inr (calculateSalary g m (darko pl + imp + d 0 * sp'), rows, total'))"
    using PlayerDetails_ok [OF d _ rows_def] by blast
  note scaler = inflationScaler_cases [of sc "FUTURE_YEARS ! k"]
  show ?thesis
    by (intro disjI2 exI [of _ d] exI [of _ rows] exI [of _ total] conjI
        d run len label shown scaler [THEN conjunct1] scaler [THEN conjunct2] other)
qed

text \<open>
  Claim C5 (surplus aggregation). For every player, either the position code is an
  inherited property name and \<open>SalaryProjections\<close> throws, or it yields five rows and a
  running total; the total is the
  current-season surplus (projected number minus actual salary, or nothing when the player
  has no actual salary) plus the surpluses of the rows that have one; a row has a surplus,
  the inflated value minus the actual salary of its season, exactly when that season has an
  actual salary (a number other than 0), and otherwise none.
\<close>

theorem surplus_aggregation:
  "(positionCategory (pos pl) = None \<and>
     SalaryProjections sc pl g m imp cys cyd = Inl TypeError) \<or>
   (\<exists>d rows total.
    (\<forall>j<5. getAgingDelta (age pl + real j) (pos pl) = Inr (d j)) \<and>
    SalaryProjections sc pl g m imp cys cyd = Inr (rows, total) \<and>
    length rows = 5 \<and>
    total =
      (case actualSalary pl of
         None \<Rightarrow> 0
       | Some x \<Rightarrow> if x = 0 then 0 else currentProjNum cys - x)
      + (\<Sum>row\<leftarrow>rows. case surplus row of None \<Rightarrow> 0 | Some s \<Rightarrow> s) \<and>
    (\<forall>k<5. rowActualSalary (rows ! k) = futureActualSalary pl (FUTURE_YEARS ! k) \<and>
       surplus (rows ! k) =
         (case futureActualSalary pl (FUTURE_YEARS ! k) of
            None \<Rightarrow> None
          | Some x \<Rightarrow>
              if x = 0 then None
              else Some (inflatedValue sc
                           (calculateSalary g m (darko pl + imp + (\<Sum>j\<le>k. d j)))
                           (FUTURE_YEARS ! k) - x))))"
proof (cases "positionCategory (pos pl)")
  case None
  show ?thesis
    by (intro disjI1 conjI None SalaryProjections_fails)
next
  case (Some c)
  obtain d where "\<forall>j::nat. getAgingDelta (age pl + real j) (pos pl) = Inr (d j)"
    by (rule deltas_exist [OF Some])
  then have d: "\<forall>j<5. getAgingDelta (age pl + real j) (pos pl) = Inr (d j)"
    by simp
  define rows where
    "rows = map (\<lambda>k. buildRow sc pl g m imp (FUTURE_YEARS ! k) k (\<Sum>j\<le>k. d j)) [0..<5]"
  have contrib: "map surplusContribution rows =
      map (\<lambda>row. case surplus row of None \<Rightarrow> 0 | Some s \<Rightarrow> s) rows"
    by (rule map_cong) (simp_all add: surplusContribution_def)
  define total where
    "total = (case actualSalary pl of
                None \<Rightarrow> 0
              | Some x \<Rightarrow> if x = 0 then 0 else currentProjNum cys - x)
             + (\<Sum>row\<leftarrow>rows. case surplus row of None \<Rightarrow> 0 | Some s \<Rightarrow> s)"
  have run: "SalaryProjections sc pl g m imp cys cyd = Inr (rows, total)"
    using SalaryProjections_ok [OF d rows_def, of cys cyd] unfolding contrib total_def .
  have len: "length rows = 5"
    by (simp add: rows_def)
  have each: "\<forall>k<5. rowActualSalary (rows ! k) = futureActualSalary pl (FUTURE_YEARS ! k) \<and>
       surplus (rows ! k) =
         (case futureActualSalary pl (FUTURE_YEARS ! k) of
            None \<Rightarrow> None
          | Some x \<Rightarrow>
              if x = 0 then None
              else Some (inflatedValue sc
                           (calculateSalary g m (darko pl + imp + (\<Sum>j\<le>k. d j)))
                           (FUTURE_YEARS ! k) - x))"
    by (simp add: rows_nth [OF rows_def] buildRow_fields)
  show ?thesis
    by (intro disjI2 exI [of _ d] exI [of _ rows] exI [of _ total] conjI
        d run len total_def each)
qed

lemma sum_list_rows:
  assumes "length rows = 5"
  shows "sum_list (map surplusContribution rows) =
    (\<Sum>j<5. case surplus (rows ! j) of None \<Rightarrow> 0 | Some s \<Rightarrow> s)"
proof -
  have "sum_list (map surplusContribution rows) =
      (\<Sum>j = 0..<length (map surplusContribution rows). map surplusContribution rows ! j)"
    by (rule sum_list_sum_nth)
  also have "\<dots> = (\<Sum>j = 0..<5. surplusContribution (rows ! j))"
    using assms by simp
  also have "\<dots> = (\<Sum>j<5. case surplus (rows ! j) of None \<Rightarrow> 0 | Some s \<Rightarrow> s)"
    by (simp add: atLeast0LessThan surplusContribution_def)
  finally show ?thesis .
qed

text \<open>
  Claim C10 (a sentinel valuation counts as zero). For every player, either the position
  code is an inherited property name and \<open>SalaryProjections\<close> throws, or it yields five
  rows and a running total, and the total is always the current-season part (the projected
  number, 0 for the sentinel, minus the actual salary when the player has one) plus the
  surpluses of the five rows. When the current-season valuation is the sentinel and the
  player has an actual salary \<open>y\<close>, the current-season part is \<open>0 - y\<close>; when the
  valuation of a future season is the sentinel and that season has an actual salary
  \<open>x\<close>, its row shows the sentinel, has the surplus \<open>0 - x\<close>, and the total is the
  current-season part plus \<open>0 - x\<close> plus the surpluses of the other four rows.
\<close>

theorem sentinel_counts_as_zero:
  "(positionCategory (pos pl) = None \<and>
     SalaryProjections sc pl g m imp cys cyd = Inl TypeError) \<or>
   (\<exists>d rows total.
    (\<forall>j<5. getAgingDelta (age pl + real j) (pos pl) = Inr (d j)) \<and>
    SalaryProjections sc pl g m imp cys cyd = Inr (rows, total) \<and>
    length rows = 5 \<and>
    total =
      (case actualSalary pl of
         None \<Rightarrow> 0
       | Some y \<Rightarrow>
           if y = 0 then 0 else (case cys of MinimumSalary \<Rightarrow> 0 | Decimal v \<Rightarrow> v) - y)
      + (\<Sum>j<5. case surplus (rows ! j) of None \<Rightarrow> 0 | Some s \<Rightarrow> s) \<and>
    (\<forall>y. cys = MinimumSalary \<and> actualSalary pl = Some y \<and> y \<noteq> 0 \<longrightarrow>
       total = (0 - y) + (\<Sum>j<5. case surplus (rows ! j) of None \<Rightarrow> 0 | Some s \<Rightarrow> s)) \<and>
    (\<forall>k x. k < 5 \<and>
        calculateSalary g m (darko pl + imp + (\<Sum>j\<le>k. d j)) = MinimumSalary \<and>
        futureActualSalary pl (FUTURE_YEARS ! k) = Some x \<and> x \<noteq> 0 \<longrightarrow>
       displaySalary (rows ! k) = DisplayMin \<and>
       surplus (rows ! k) = Some (0 - x) \<and>
       total =
         (case actualSalary pl of
            None \<Rightarrow> 0
          | Some y \<Rightarrow>
              if y = 0 then 0 else (case cys of MinimumSalary \<Rightarrow> 0 | Decimal v \<Rightarrow> v) - y)
         + (0 - x)
         + (\<Sum>j\<in>{..<5} - {k}. case surplus (rows ! j) of None \<Rightarrow> 0 | Some s \<Rightarrow> s)))"
proof (cases "positionCategory (pos pl)")
  case None
  show ?thesis
    by (intro disjI1 conjI None SalaryProjections_fails)
next
  case (Some c)
  obtain d where "\<forall>j::nat. getAgingDelta (age pl + real j) (pos pl) = Inr (d j)"
    by (rule deltas_exist [OF Some])
  then have d: "\<forall>j<5. getAgingDelta (age pl + real j) (pos pl) = Inr (d j)"
    by simp
  define rows where
    "rows = map (\<lambda>k. buildRow sc pl g m imp (FUTURE_YEARS ! k) k (\<Sum>j\<le>k. d j)) [0..<5]"
  define current where
    "current = (case actualSalary pl of
                  None \<Rightarrow> 0
                | Some y \<Rightarrow>
                    if y = 0 then 0 else (case cys of MinimumSalary \<Rightarrow> 0 | Decimal v \<Rightarrow> v) - y)"
  define contribution where
    "contribution j = (case surplus (rows ! j) of None \<Rightarrow> 0 | Some s \<Rightarrow> s)" for j
  define total where "total = current + (\<Sum>j<5. contribution j)"
  have len: "length rows = 5"
    by (simp add: rows_def)
  have run: "SalaryProjections sc pl g m imp cys cyd = Inr (rows, total)"
    using SalaryProjections_ok [OF d rows_def, of cys cyd]
    unfolding sum_list_rows [OF len] total_def current_def contribution_def currentProjNum_def .
  have tot: "total = current + (\<Sum>j<5. contribution j)"
    by (rule total_def)
  have cur: "\<forall>y. cys = MinimumSalary \<and> actualSalary pl = Some y \<and> y \<noteq> 0 \<longrightarrow>
       total = (0 - y) + (\<Sum>j<5. contribution j)"
    by (simp add: total_def current_def)
  have fut: "\<forall>k x. k < 5 \<and>
        calculateSalary g m (darko pl + imp + (\<Sum>j\<le>k. d j)) = MinimumSalary \<and>
        futureActualSalary pl (FUTURE_YEARS ! k) = Some x \<and> x \<noteq> 0 \<longrightarrow>
       displaySalary (rows ! k) = DisplayMin \<and>
       surplus (rows ! k) = Some (0 - x) \<and>
       total = current + (0 - x) + (\<Sum>j\<in>{..<5} - {k}. contribution j)"
  proof (intro allI impI, elim conjE)
    fix k x
    assume k: "k < 5"
      and raw: "calculateSalary g m (darko pl + imp + (\<Sum>j\<le>k. d j)) = MinimumSalary"
      and act: "futureActualSalary pl (FUTURE_YEARS ! k) = Some x" and x: "x \<noteq> 0"
    have shown: "displaySalary (rows ! k) = DisplayMin"
      using raw by (simp add: rows_nth [OF rows_def k] buildRow_fields)
    have sur: "surplus (rows ! k) = Some (0 - x)"
      using raw act x by (simp add: rows_nth [OF rows_def k] buildRow_fields inflatedValue_def)
    then have ck: "contribution k = 0 - x"
      by (simp add: contribution_def)
    from k have "(\<Sum>j<5. contribution j) = contribution k + (\<Sum>j\<in>{..<5} - {k}. contribution j)"
      by (intro sum.remove) simp_all
    with ck have "total = current + (0 - x) + (\<Sum>j\<in>{..<5} - {k}. contribution j)"
      by (simp add: total_def)
    with shown sur show "displaySalary (rows ! k) = DisplayMin \<and>
       surplus (rows ! k) = Some (0 - x) \<and>
       total = current + (0 - x) + (\<Sum>j\<in>{..<5} - {k}. contribution j)"
      by (intro conjI)
  qed
  show ?thesis
    by (intro disjI2 exI [of _ d] exI [of _ rows] exI [of _ total] conjI d run len
        tot [unfolded contribution_def current_def]
        cur [unfolded contribution_def]
        fut [unfolded contribution_def current_def])
qed

subsection \<open>The pipeline on concrete players\<close>

lemma calculateSalary_star:
  assumes "4 \<le> r"
  shows "calculateSalary g m r =
    (if g * m / 1475 * (r + 3) * 4.32 * 1.1 < 3 then MinimumSalary
     else Decimal (toFixed1 (g * m / 1475 * (r + 3) * 4.32 * 1.1)))"
proof -
  from assms have cb: "cappedBoost r = 1 / 10"
    by (intro cappedBoost_capped) simp
  from assms have "adjustedSalary g m r = baseSalary g m r * (1 + cappedBoost r)"
    by (simp add: adjustedSalary_def)
  also have "\<dots> = baseSalary g m r * (1 + 1 / 10)"
    by (simp only: cb)
  also have "\<dots> = g * m / 1475 * (r + 3) * 4.32 * 1.1"
    by (simp add: baseSalary_def MINUTES_BASELINE_def REPLACEMENT_LEVEL_DARKO_def
        WIN_COST_MILLIONS_def)
  finally have adj: "adjustedSalary g m r = g * m / 1475 * (r + 3) * 4.32 * 1.1" .
  have "MINIMUM_SALARY_THRESHOLD = 3"
    by (simp add: MINIMUM_SALARY_THRESHOLD_def)
  then show ?thesis
    unfolding calculateSalary_def Let_def adj by (simp only:)
qed

lemma FUTURE_YEARS_nth:
  "FUTURE_YEARS ! 0 = ''2026-27''" "FUTURE_YEARS ! 1 = ''2027-28''"
  by (simp_all add: FUTURE_YEARS_def)

text \<open>
  C4 for a wing aged 25 with rating 5, 75 games of 35 minutes, in the configured season:
  68.1 for the current season, and for 2026-27 the value 68.5 * 1.074, shown as 73.6,
  against a salary of 40.
\<close>

theorem projection_season_valuation_witness:
  "positionCategory ''sf_pos'' = Some wing \<and>
   getSeasonProgress SEASON_CONFIG None = Inr (98 / 173) \<and>
   (0::nat) < 5 \<and>
   (\<exists>rows total.
      PlayerDetails SEASON_CONFIG INFLATION_SCALERS
        \<lparr>games = 75, minutes = 35, improvement = 0,
         selectedPlayer =
           \<lparr>name = ''B'', pos = ''sf_pos'', age = 25, darko = 5, actualSalary = Some 37,
            futureSalaries = Some [(''2026-27'', 40), (''2027-28'', 43)]\<rparr>\<rparr> =
        Inr (Decimal 68.1, rows, total) \<and>
      displaySalary (rows ! 0) = DisplayDollars 73.6 \<and>
      surplus (rows ! 0) = Some 33.569)"
proof -
  let ?pl = "\<lparr>name = ''B'', pos = ''sf_pos'', age = 25, darko = 5, actualSalary = Some 37,
            futureSalaries = Some [(''2026-27'', 40), (''2027-28'', 43)]\<rparr>"
  let ?cmp = "\<lparr>games = 75, minutes = 35, improvement = 0, selectedPlayer = ?pl\<rparr>"
  have h1: "positionCategory (pos ?pl) = Some wing"
    by (simp add: positionCategory_known)
  have h2: "getSeasonProgress SEASON_CONFIG None = Inr (98 / 173)"
    by (simp add: getSeasonProgress_def SEASON_CONFIG_def)
  have h3: "(0::nat) < 5"
    by simp
  from projection_season_valuation [OF h2 h3, where pl = "?pl" and sc = INFLATION_SCALERS
      and g = 75 and m = 35 and imp = 0]
  obtain d rows total where
    d: "\<forall>j<5. getAgingDelta (age ?pl + real j) (pos ?pl) = Inr (d j)" and
    run: "PlayerDetails SEASON_CONFIG INFLATION_SCALERS ?cmp =
      Inr (calculateSalary 75 35 (darko ?pl + 0 + d 0 * (98 / 173)), rows, total)" and
    shown: "case calculateSalary 75 35 (darko ?pl + 0 + (\<Sum>j\<le>0. d j)) of
       MinimumSalary \<Rightarrow> displaySalary (rows ! 0) = DisplayMin
     | Decimal v \<Rightarrow>
         displaySalary (rows ! 0) =
           DisplayDollars (toFixed1 (v * inflationScaler INFLATION_SCALERS (FUTURE_YEARS ! 0))) \<and>
         (\<forall>x. futureActualSalary ?pl (FUTURE_YEARS ! 0) = Some x \<and> x \<noteq> 0 \<longrightarrow>
            surplus (rows ! 0) =
              Some (v * inflationScaler INFLATION_SCALERS (FUTURE_YEARS ! 0) - x))"
    by (elim disjE exE conjE, use h1 in simp) (rule that)
  from d [rule_format, of 0] have "getAgingDelta 25 ''sf_pos'' = Inr (d 0)"
    by simp
  then have d0: "d 0 = 0.10"
    by (simp add: getAgingDelta_def positionCategory_known curveDelta_def)
  have cur: "calculateSalary 75 35 (darko ?pl + 0 + d 0 * (98 / 173)) = Decimal 68.1"
    by (simp add: d0 calculateSalary_star toFixed1_def)
  have raw: "calculateSalary 75 35 (darko ?pl + 0 + (\<Sum>j\<le>0. d j)) = Decimal 68.5"
    by (simp add: d0 calculateSalary_star toFixed1_def)
  have mult: "inflationScaler INFLATION_SCALERS (FUTURE_YEARS ! 0) = 1.074"
    by (simp add: inflationScaler_def INFLATION_SCALERS_def FUTURE_YEARS_nth)
  have act: "futureActualSalary ?pl (FUTURE_YEARS ! 0) = Some 40"
    by (simp add: futureActualSalary_def FUTURE_YEARS_nth)
  from shown have row: "displaySalary (rows ! 0) = DisplayDollars 73.6 \<and>
      surplus (rows ! 0) = Some 33.569"
    unfolding raw mult by (simp add: act toFixed1_def)
  from run row have "\<exists>rows total.
      PlayerDetails SEASON_CONFIG INFLATION_SCALERS ?cmp = Inr (Decimal 68.1, rows, total) \<and>
      displaySalary (rows ! 0) = DisplayDollars 73.6 \<and>
      surplus (rows ! 0) = Some 33.569"
    unfolding cur by blast
  with h1 h2 h3 show ?thesis
    by simp
qed

lemma list_of_five:
  assumes "length xs = 5"
  shows "xs = [xs ! 0, xs ! 1, xs ! 2, xs ! 3, xs ! 4]"
proof -
  from assms obtain a b c d e where "xs = [a, b, c, d, e]"
    by (auto simp: eval_nat_numeral length_Suc_conv)
  then show ?thesis
    by simp
qed

text \<open>
  C5 for the same player with salaries 37, 40 and 43 for the current and the next two
  seasons: 31.1 + 33.569 + 34.5376, and no surplus in the last three rows.
\<close>

theorem surplus_aggregation_witness:
  "positionCategory ''sf_pos'' = Some wing \<and>
   (\<exists>rows total.
      SalaryProjections INFLATION_SCALERS
        \<lparr>name = ''B'', pos = ''sf_pos'', age = 25, darko = 5, actualSalary = Some 37,
         futureSalaries = Some [(''2026-27'', 40), (''2027-28'', 43)]\<rparr>
        75 35 0 (Decimal 68.1) (98 / 1730) = Inr (rows, total) \<and>
      map surplus rows = [Some 33.569, Some 34.5376, None, None, None] \<and>
      total = 99.2066)"
proof -
  let ?pl = "\<lparr>name = ''B'', pos = ''sf_pos'', age = 25, darko = 5, actualSalary = Some 37,
            futureSalaries = Some [(''2026-27'', 40), (''2027-28'', 43)]\<rparr>"
  have h1: "positionCategory (pos ?pl) = Some wing"
    by (simp add: positionCategory_known)
  from surplus_aggregation [where pl = "?pl" and sc = INFLATION_SCALERS and g = 75 and m = 35
      and imp = 0 and cys = "Decimal 68.1" and cyd = "98 / 1730"]
  obtain d rows total where
    d: "\<forall>j<5. getAgingDelta (age ?pl + real j) (pos ?pl) = Inr (d j)" and
    run: "SalaryProjections INFLATION_SCALERS ?pl 75 35 0 (Decimal 68.1) (98 / 1730) =
      Inr (rows, total)" and
    len: "length rows = 5" and
    total: "total =
      (case actualSalary ?pl of
         None \<Rightarrow> 0
       | Some x \<Rightarrow> if x = 0 then 0 else currentProjNum (Decimal 68.1) - x)
      + (\<Sum>row\<leftarrow>rows. case surplus row of None \<Rightarrow> 0 | Some s \<Rightarrow> s)" and
    each: "\<forall>k<5. rowActualSalary (rows ! k) = futureActualSalary ?pl (FUTURE_YEARS ! k) \<and>
       surplus (rows ! k) =
         (case futureActualSalary ?pl (FUTURE_YEARS ! k) of
            None \<Rightarrow> None
          | Some x \<Rightarrow>
              if x = 0 then None
              else Some (inflatedValue INFLATION_SCALERS
                           (calculateSalary 75 35 (darko ?pl + 0 + (\<Sum>j\<le>k. d j)))
                           (FUTURE_YEARS ! k) - x))"
    by (elim disjE exE conjE, use h1 in simp) (rule that)
  from d [rule_format, of 0] have d0: "d 0 = 0.10"
    by (simp add: getAgingDelta_def positionCategory_known curveDelta_def)
  from d [rule_format, of "Suc 0"] have d1: "d (Suc 0) = 0.03"
    by (simp add: getAgingDelta_def positionCategory_known curveDelta_def)
  have raw0: "calculateSalary 75 35 (darko ?pl + 0 + (\<Sum>j\<le>0. d j)) = Decimal 68.5"
    by (simp add: d0 calculateSalary_star toFixed1_def)
  have raw1: "calculateSalary 75 35 (darko ?pl + 0 + (\<Sum>j\<le>1. d j)) = Decimal 68.8"
    by (simp add: d0 d1 calculateSalary_star toFixed1_def)
  have lt: "(0::nat) < 5" "(1::nat) < 5" "(2::nat) < 5" "(3::nat) < 5" "(4::nat) < 5"
    by simp_all
  note e0 = each [rule_format, OF lt(1), THEN conjunct2]
  note e1 = each [rule_format, OF lt(2), THEN conjunct2]
  note e2 = each [rule_format, OF lt(3), THEN conjunct2]
  note e3 = each [rule_format, OF lt(4), THEN conjunct2]
  note e4 = each [rule_format, OF lt(5), THEN conjunct2]
  have s0: "surplus (rows ! 0) = Some 33.569"
    unfolding e0 raw0
    by (simp add: futureActualSalary_def FUTURE_YEARS_def inflatedValue_def inflationScaler_def
        INFLATION_SCALERS_def)
  have s1: "surplus (rows ! 1) = Some 34.5376"
    unfolding e1 raw1
    by (simp add: futureActualSalary_def FUTURE_YEARS_def inflatedValue_def inflationScaler_def
        INFLATION_SCALERS_def)
  have s2: "surplus (rows ! 2) = None"
    unfolding e2 by (simp add: futureActualSalary_def FUTURE_YEARS_def)
  have s3: "surplus (rows ! 3) = None"
    unfolding e3 by (simp add: futureActualSalary_def FUTURE_YEARS_def)
  have s4: "surplus (rows ! 4) = None"
    unfolding e4 by (simp add: futureActualSalary_def FUTURE_YEARS_def)
  note rows = list_of_five [OF len]
  have surpluses: "map surplus rows = [Some 33.569, Some 34.5376, None, None, None]"
    using s0 s1 s2 s3 s4 by (subst rows) simp
  have "(\<Sum>row\<leftarrow>rows. case surplus row of None \<Rightarrow> 0 | Some s \<Rightarrow> s)
      = (\<Sum>v\<leftarrow>map surplus rows. case v of None \<Rightarrow> 0 | Some s \<Rightarrow> s)"
    by (simp add: comp_def)
  also have "\<dots> = 33.569 + 34.5376"
    unfolding surpluses by simp
  finally have tot: "total = 99.2066"
    unfolding total by (simp add: currentProjNum_def)
  have "\<exists>rows total.
      SalaryProjections INFLATION_SCALERS ?pl 75 35 0 (Decimal 68.1) (98 / 1730) =
        Inr (rows, total) \<and>
      map surplus rows = [Some 33.569, Some 34.5376, None, None, None] \<and>
      total = 99.2066"
    by (intro exI [of _ rows] exI [of _ total] conjI run surpluses tot)
  with h1 show ?thesis
    by simp
qed

lemma calculateSalary_replacement:
  assumes "- 3 \<le> r" and "r \<le> 0"
  shows "calculateSalary 30 10 r = MinimumSalary"
proof -
  define b where "b = baseSalary 30 10 r"
  have b: "b = 3888 / 1475 * ((r + 3) / 3)"
    by (simp add: b_def baseSalary_def MINUTES_BASELINE_def REPLACEMENT_LEVEL_DARKO_def
        WIN_COST_MILLIONS_def)
  from assms have "0 \<le> (r + 3) / 3" and "(r + 3) / 3 \<le> 1"
    by simp_all
  then have "0 \<le> 3888 / 1475 * ((r + 3) / 3)" and "3888 / 1475 * ((r + 3) / 3) \<le> 3888 / 1475 * 1"
    by (simp_all only: mult_left_mono zero_le_mult_iff) simp_all
  with b have b0: "0 \<le> b" and b3: "b < 3"
    by simp_all
  have cb: "0 \<le> cappedBoost r"
    using cappedBoost_bounds [of r] by simp
  have "b * (1 - cappedBoost r) \<le> b * 1"
    using b0 cb by (intro mult_left_mono) simp_all
  with b3 have "b * (1 - cappedBoost r) < 3"
    by simp
  with b3 assms have "adjustedSalary 30 10 r < 3"
    unfolding adjustedSalary_def b_def [symmetric] by simp
  then show ?thesis
    by (simp add: calculateSalary_def MINIMUM_SALARY_THRESHOLD_def)
qed

lemma sum_below_five:
  fixes f :: "nat \<Rightarrow> real"
  shows "(\<Sum>j<5. f j) = f 0 + f 1 + f 2 + f 3 + f 4"
  by (simp add: eval_nat_numeral lessThan_Suc)

lemma sum_upto_index:
  fixes f :: "nat \<Rightarrow> real"
  shows "(\<Sum>j\<le>0. f j) = f 0" "(\<Sum>j\<le>1. f j) = f 0 + f 1"
    "(\<Sum>j\<le>2. f j) = f 0 + f 1 + f 2" "(\<Sum>j\<le>3. f j) = f 0 + f 1 + f 2 + f 3"
    "(\<Sum>j\<le>4. f j) = f 0 + f 1 + f 2 + f 3 + f 4"
  by (simp_all add: eval_nat_numeral atMost_Suc)

text \<open>
  C10 for a wing aged 27 with rating 0 and 30 games of 10 minutes, valued at the sentinel
  in every season, with salaries 4 now and 5 to 9 in the future seasons: every surplus is
  the negated salary and the total is -39.
\<close>

theorem sentinel_counts_as_zero_witness:
  "positionCategory ''sf_pos'' = Some wing \<and>
   calculateSalary 30 10 0 = MinimumSalary \<and>
   (\<exists>rows total.
      SalaryProjections INFLATION_SCALERS
        \<lparr>name = ''A'', pos = ''sf_pos'', age = 27, darko = 0, actualSalary = Some 4,
         futureSalaries = Some [(''2026-27'', 5), (''2027-28'', 6), (''2028-29'', 7),
                                (''2029-30'', 8), (''2030-31'', 9)]\<rparr>
        30 10 0 MinimumSalary 0 = Inr (rows, total) \<and>
      displaySalary (rows ! 0) = DisplayMin \<and>
      surplus (rows ! 0) = Some (- 5) \<and> surplus (rows ! 1) = Some (- 6) \<and>
      surplus (rows ! 2) = Some (- 7) \<and> surplus (rows ! 3) = Some (- 8) \<and>
      surplus (rows ! 4) = Some (- 9) \<and>
      total = - 39)"
proof -
  let ?pl = "\<lparr>name = ''A'', pos = ''sf_pos'', age = 27, darko = 0, actualSalary = Some 4,
         futureSalaries = Some [(''2026-27'', 5), (''2027-28'', 6), (''2028-29'', 7),
                                (''2029-30'', 8), (''2030-31'', 9)]\<rparr>"
  have h1: "positionCategory (pos ?pl) = Some wing"
    by (simp add: positionCategory_known)
  have minimum: "calculateSalary 30 10 0 = MinimumSalary"
    by (rule calculateSalary_replacement) simp_all
  from sentinel_counts_as_zero [where pl = "?pl" and sc = INFLATION_SCALERS and g = 30
      and m = 10 and imp = 0 and cys = MinimumSalary and cyd = 0]
  obtain d rows total where
    d: "\<forall>j<5. getAgingDelta (age ?pl + real j) (pos ?pl) = Inr (d j)" and
    run: "SalaryProjections INFLATION_SCALERS ?pl 30 10 0 MinimumSalary 0 = Inr (rows, total)" and
    tot: "total =
      (case actualSalary ?pl of
         None \<Rightarrow> 0
       | Some y \<Rightarrow>
           if y = 0 then 0
           else (case MinimumSalary of MinimumSalary \<Rightarrow> 0 | Decimal v \<Rightarrow> v) - y)
      + (\<Sum>j<5. case surplus (rows ! j) of None \<Rightarrow> 0 | Some s \<Rightarrow> s)" and
    fut: "\<forall>k x. k < 5 \<and>
        calculateSalary 30 10 (darko ?pl + 0 + (\<Sum>j\<le>k. d j)) = MinimumSalary \<and>
        futureActualSalary ?pl (FUTURE_YEARS ! k) = Some x \<and> x \<noteq> 0 \<longrightarrow>
       displaySalary (rows ! k) = DisplayMin \<and>
       surplus (rows ! k) = Some (0 - x) \<and>
       total =
         (case actualSalary ?pl of
            None \<Rightarrow> 0
          | Some y \<Rightarrow>
              if y = 0 then 0
              else (case MinimumSalary of MinimumSalary \<Rightarrow> 0 | Decimal v \<Rightarrow> v) - y)
         + (0 - x)
         + (\<Sum>j\<in>{..<5} - {k}. case surplus (rows ! j) of None \<Rightarrow> 0 | Some s \<Rightarrow> s)"
    by (elim disjE exE conjE, use h1 in simp) (rule that)
  have dv: "d 0 = 0" "d 1 = 0" "d 2 = - 0.05" "d 3 = - 0.10" "d 4 = - 0.18"
    using d [rule_format, of 0] d [rule_format, of 1] d [rule_format, of 2]
      d [rule_format, of 3] d [rule_format, of 4]
    by (simp_all add: getAgingDelta_def positionCategory_known curveDelta_def)
  have raw: "calculateSalary 30 10 (darko ?pl + 0 + (\<Sum>j\<le>k. d j)) = MinimumSalary"
    if "k \<in> {0, 1, 2, 3, 4}" for k
    using that dv(2) by (intro calculateSalary_replacement) (auto simp: sum_upto_index dv)
  have act: "futureActualSalary ?pl (FUTURE_YEARS ! 0) = Some 5"
    "futureActualSalary ?pl (FUTURE_YEARS ! 1) = Some 6"
    "futureActualSalary ?pl (FUTURE_YEARS ! 2) = Some 7"
    "futureActualSalary ?pl (FUTURE_YEARS ! 3) = Some 8"
    "futureActualSalary ?pl (FUTURE_YEARS ! 4) = Some 9"
    by (simp_all add: futureActualSalary_def FUTURE_YEARS_def)
  have r0: "displaySalary (rows ! 0) = DisplayMin" and s0: "surplus (rows ! 0) = Some (- 5)"
    using fut [rule_format, of 0 5] raw [of 0] act(1) by simp_all
  have s1: "surplus (rows ! 1) = Some (- 6)"
    using fut [rule_format, of 1 6] raw [of 1] act(2) by simp
  have s2: "surplus (rows ! 2) = Some (- 7)"
    using fut [rule_format, of 2 7] raw [of 2] act(3) by simp
  have s3: "surplus (rows ! 3) = Some (- 8)"
    using fut [rule_format, of 3 8] raw [of 3] act(4) by simp
  have s4: "surplus (rows ! 4) = Some (- 9)"
    using fut [rule_format, of 4 9] raw [of 4] act(5) by simp
  have total: "total = - 39"
    unfolding tot sum_below_five s0 s1 s2 s3 s4 by simp
  have "\<exists>rows total.
      SalaryProjections INFLATION_SCALERS ?pl 30 10 0 MinimumSalary 0 = Inr (rows, total) \<and>
      displaySalary (rows ! 0) = DisplayMin \<and>
      surplus (rows ! 0) = Some (- 5) \<and> surplus (rows ! 1) = Some (- 6) \<and>
      surplus (rows ! 2) = Some (- 7) \<and> surplus (rows ! 3) = Some (- 8) \<and>
      surplus (rows ! 4) = Some (- 9) \<and>
      total = - 39"
    by (intro exI [of _ rows] exI [of _ total] conjI run r0 s0 s1 s2 s3 s4 total)
  with h1 minimum show ?thesis
    by simp
qed

end
